theory Spec2Isabelle
  imports Complex_Main "HOL-Library.Log_Nat" "HOL-Library.Sublist"
begin

section \<open>Errors and strings\<close>

text \<open>
  The two sources, \<^verbatim>\<open>src/src/table-script.tsx\<close> and \<^verbatim>\<open>src/unnamed/part_000\<close>, are
  TypeScript modules. Their exceptions are values here: reading a property of
  \<^verbatim>\<open>undefined\<close> is a \<open>TypeError\<close>, \<^verbatim>\<open>toFixed\<close> with a digit count outside 0..100 is
  a \<open>RangeError\<close>. A result is \<open>error + 'a\<close>, with \<open>Inl\<close> the exception.

  A JavaScript string is modelled by the \<open>string\<close> of its UTF-8 bytes, so \<^verbatim>\<open>===\<close> on
  strings is equality and the empty string is \<open>[]\<close>.
\<close>

datatype error = TypeError | RangeError

definition bindE :: "error + 'a \<Rightarrow> ('a \<Rightarrow> error + 'b) \<Rightarrow> error + 'b" where
  "bindE m f = (case m of Inl e \<Rightarrow> Inl e | Inr x \<Rightarrow> f x)"

text \<open>\<^verbatim>\<open>Array.prototype.map\<close> with a callback that may throw: the first exception ends it.\<close>

fun mapE :: "('a \<Rightarrow> error + 'b) \<Rightarrow> 'a list \<Rightarrow> error + 'b list" where
  "mapE f [] = Inr []"
| "mapE f (x # xs) =
     (case f x of
        Inl e \<Rightarrow> Inl e
      | Inr y \<Rightarrow> (case mapE f xs of Inl e \<Rightarrow> Inl e | Inr ys \<Rightarrow> Inr (y # ys)))"

definition digit_char :: "nat \<Rightarrow> char" where
  "digit_char d = ''0123456789'' ! d"

text \<open>The decimal digits of a natural number, most significant first.\<close>

fun show_nat :: "nat \<Rightarrow> string" where
  "show_nat n =
     (if n < 10 then [digit_char n] else show_nat (n div 10) @ [digit_char (n mod 10)])"

declare show_nat.simps [simp del]

text \<open>The template literal \<^verbatim>\<open>`${v}`\<close> of a string that may be \<^verbatim>\<open>undefined\<close>.\<close>

definition template_str :: "string option \<Rightarrow> string" where
  "template_str v = (case v of None \<Rightarrow> ''undefined'' | Some s \<Rightarrow> s)"

text \<open>\<^verbatim>\<open>String.prototype.padStart(n, fill)\<close>.\<close>

definition padStart :: "nat \<Rightarrow> string \<Rightarrow> string \<Rightarrow> string" where
  "padStart n fill s =
     (if n \<le> length s \<or> fill = [] then s
      else take (n - length s) (concat (replicate (n - length s) fill)) @ s)"

text \<open>The euro sign U+20AC, in UTF-8.\<close>

definition euro :: string where
  "euro = [CHR 0xE2, CHR 0x82, CHR 0xAC]"

section \<open>JavaScript numbers\<close>

text \<open>
  A Number is an IEEE 754 double. A finite double is modelled by its exact rational value;
  the two zeros are one value, which no function below tells apart (\<^verbatim>\<open>toFixed\<close> and
  \<^verbatim>\<open>toString\<close> print both as zero).
\<close>

datatype number = NaN | PosInfinity | NegInfinity | Finite rat

text \<open>\<open>floor_log b a\<close> is the integer \<open>e\<close> with \<open>b ^ e \<le> a < b ^ (e + 1)\<close>, for \<open>0 < a\<close>.\<close>

definition floor_log :: "nat \<Rightarrow> rat \<Rightarrow> int" where
  "floor_log b a =
     (let p = fst (quotient_of a); q = snd (quotient_of a);
          d = int (floorlog b (nat p)) - int (floorlog b (nat q))
      in if of_nat b powi d \<le> a then d else d - 1)"

definition round_half_even :: "rat \<Rightarrow> int" where
  "round_half_even x =
     (let f = \<lfloor>x\<rfloor>; r = x - of_int f
      in if r < 1 / 2 then f else if 1 / 2 < r then f + 1 else if even f then f else f + 1)"

text \<open>
  The Number value for a real: round to nearest, ties to even, with 53 significant bits,
  exponents from -1022 (subnormal below) and overflow to an infinity from \<open>2 ^ 1024\<close>.
\<close>

definition to_double :: "rat \<Rightarrow> number" where
  "to_double q =
     (if q = 0 then Finite 0
      else
        let a = \<bar>q\<bar>;
            e = max (floor_log 2 a) (- 1022);
            ulp = 2 powi (e - 52);
            r = of_int (round_half_even (a / ulp)) * ulp
        in if 2 powi 1024 \<le> r then (if q < 0 then NegInfinity else PosInfinity)
           else Finite (if q < 0 then - r else r))"

definition is_negative :: "number \<Rightarrow> bool" where
  "is_negative x = (case x of NegInfinity \<Rightarrow> True | Finite v \<Rightarrow> v < 0 | _ \<Rightarrow> False)"

text \<open>The \<^verbatim>\<open>*\<close> of two Numbers.\<close>

definition multiply :: "number \<Rightarrow> number \<Rightarrow> number" where
  "multiply x y =
     (case (x, y) of
        (NaN, _) \<Rightarrow> NaN
      | (_, NaN) \<Rightarrow> NaN
      | (Finite a, Finite b) \<Rightarrow> to_double (a * b)
      | _ \<Rightarrow>
          if x = Finite 0 \<or> y = Finite 0 then NaN
          else if is_negative x = is_negative y then PosInfinity
          else NegInfinity)"

subsection \<open>parseFloat\<close>

text \<open>
  The white space and line terminators that \<^verbatim>\<open>parseFloat\<close> skips at the start of its
  argument: TAB, LF, VT, FF, CR, SP, U+00A0, U+1680, U+2000 to U+200A, U+2028, U+2029,
  U+202F, U+205F, U+3000 and U+FEFF, each as its UTF-8 bytes.
\<close>

definition white_space :: "string list" where
  "white_space =
     [[CHR 0x09], [CHR 0x0A], [CHR 0x0B], [CHR 0x0C], [CHR 0x0D], [CHR 0x20],
      [CHR 0xC2, CHR 0xA0], [CHR 0xE1, CHR 0x9A, CHR 0x80],
      [CHR 0xE2, CHR 0x80, CHR 0x80], [CHR 0xE2, CHR 0x80, CHR 0x81],
      [CHR 0xE2, CHR 0x80, CHR 0x82], [CHR 0xE2, CHR 0x80, CHR 0x83],
      [CHR 0xE2, CHR 0x80, CHR 0x84], [CHR 0xE2, CHR 0x80, CHR 0x85],
      [CHR 0xE2, CHR 0x80, CHR 0x86], [CHR 0xE2, CHR 0x80, CHR 0x87],
      [CHR 0xE2, CHR 0x80, CHR 0x88], [CHR 0xE2, CHR 0x80, CHR 0x89],
      [CHR 0xE2, CHR 0x80, CHR 0x8A], [CHR 0xE2, CHR 0x80, CHR 0xA8],
      [CHR 0xE2, CHR 0x80, CHR 0xA9], [CHR 0xE2, CHR 0x80, CHR 0xAF],
      [CHR 0xE2, CHR 0x81, CHR 0x9F], [CHR 0xE3, CHR 0x80, CHR 0x80],
      [CHR 0xEF, CHR 0xBB, CHR 0xBF]]"

definition leading_space :: "string \<Rightarrow> nat" where
  "leading_space s =
     (case List.find (\<lambda>w. prefix w s) white_space of None \<Rightarrow> 0 | Some w \<Rightarrow> length w)"

function trimStart :: "string \<Rightarrow> string" where
  "trimStart s = (if leading_space s = 0 then s else trimStart (drop (leading_space s) s))"
  by pat_completeness auto
termination
proof (relation "measure length")
  show "wf (measure length)" by simp
next
  fix s :: string
  assume "leading_space s \<noteq> 0"
  moreover have "leading_space s \<le> length s"
    by (auto simp: leading_space_def prefix_def find_Some_iff split: option.splits)
  ultimately show "(drop (leading_space s) s, s) \<in> measure length"
    by simp
qed

declare trimStart.simps [simp del]

definition is_digit :: "char \<Rightarrow> bool" where
  "is_digit c = (48 \<le> (of_char c :: nat) \<and> (of_char c :: nat) \<le> 57)"

definition digit_val :: "char \<Rightarrow> nat" where
  "digit_val c = of_char c - 48"

definition digits_val :: "string \<Rightarrow> nat" where
  "digits_val ds = foldl (\<lambda>a c. 10 * a + digit_val c) 0 ds"

text \<open>
  The value of the ExponentPart at the start of \<open>r\<close>: \<^verbatim>\<open>e\<close> or \<^verbatim>\<open>E\<close>, an optional sign and
  at least one digit. Without such a part the literal ends before \<open>r\<close> and the exponent
  is 0.
\<close>

definition exponent_part :: "string \<Rightarrow> int" where
  "exponent_part r =
     (case r of
        [] \<Rightarrow> 0
      | c # r1 \<Rightarrow>
          if c = CHR ''e'' \<or> c = CHR ''E'' then
            (let neg = (case r1 of [] \<Rightarrow> False | s # _ \<Rightarrow> s = CHR ''-'');
                 r2 = (case r1 of [] \<Rightarrow> [] | s # r' \<Rightarrow>
                         if s = CHR ''-'' \<or> s = CHR ''+'' then r' else r1);
                 ds = takeWhile is_digit r2
             in if ds = [] then 0
                else if neg then - int (digits_val ds) else int (digits_val ds))
          else 0)"

text \<open>
  The mathematical value of the longest prefix of \<open>u\<close> that is a StrUnsignedDecimalLiteral
  other than \<^verbatim>\<open>Infinity\<close> (digits, an optional point and fraction, an optional exponent;
  at least one digit before the exponent); \<open>None\<close> when no prefix is one. \<^verbatim>\<open>parseFloat\<close>
  rounds that value to the nearest double, as the engines do for any number of digits.
\<close>

definition unsigned_decimal :: "string \<Rightarrow> rat option" where
  "unsigned_decimal u =
     (let ip = takeWhile is_digit u; r1 = dropWhile is_digit u;
          has_point = (case r1 of [] \<Rightarrow> False | c # _ \<Rightarrow> c = CHR ''.'');
          fp = (if has_point then takeWhile is_digit (tl r1) else []);
          r2 = (if has_point then dropWhile is_digit (tl r1) else r1)
      in if ip = [] \<and> fp = [] then None
         else Some (of_nat (digits_val (ip @ fp)) * 10 powi (exponent_part r2 - int (length fp))))"

definition parseFloat :: "string \<Rightarrow> number" where
  "parseFloat s =
     (let t = trimStart s;
          neg = (case t of [] \<Rightarrow> False | c # _ \<Rightarrow> c = CHR ''-'');
          u = (case t of [] \<Rightarrow> [] | c # r \<Rightarrow> if c = CHR ''-'' \<or> c = CHR ''+'' then r else t)
      in if prefix ''Infinity'' u then (if neg then NegInfinity else PosInfinity)
         else (case unsigned_decimal u of
                 None \<Rightarrow> NaN
               | Some mv \<Rightarrow> to_double (if neg then - mv else mv)))"

subsection \<open>Number.prototype.toString and toFixed\<close>

text \<open>
  \<^verbatim>\<open>Number::toString\<close> of a positive finite \<open>x\<close> takes the digits \<open>s\<close>, their count \<open>k\<close> and
  the decimal exponent \<open>n\<close> with \<open>k\<close> least such that \<open>s * 10 ^ (n - k)\<close> has the Number
  value \<open>x\<close>. With \<open>10 ^ (n - 1) \<le> x < 10 ^ n\<close> the only \<open>k\<close>-digit decimals that can round to
  \<open>x\<close> are \<open>x\<close> cut after \<open>k\<close> digits and the next one up; between two that do, the one
  nearer to \<open>x\<close> is taken (an even \<open>s\<close> on a tie). Seventeen digits always suffice, so the
  search is cut there.
\<close>

definition lower_candidate :: "rat \<Rightarrow> int \<Rightarrow> nat \<Rightarrow> nat \<times> int" where
  "lower_candidate x n k = (nat \<lfloor>x / 10 powi (n - int k)\<rfloor>, n)"

definition upper_candidate :: "rat \<Rightarrow> int \<Rightarrow> nat \<Rightarrow> nat \<times> int" where
  "upper_candidate x n k =
     (let s = nat \<lfloor>x / 10 powi (n - int k)\<rfloor> + 1
      in if s < 10 ^ k then (s, n) else (10 ^ (k - 1), n + 1))"

definition decimal_value :: "nat \<Rightarrow> nat \<times> int \<Rightarrow> rat" where
  "decimal_value k c = of_nat (fst c) * 10 powi (snd c - int k)"

definition round_trips :: "rat \<Rightarrow> nat \<Rightarrow> nat \<times> int \<Rightarrow> bool" where
  "round_trips x k c = (to_double (decimal_value k c) = Finite x)"

definition closer :: "rat \<Rightarrow> nat \<Rightarrow> nat \<times> int \<Rightarrow> nat \<times> int \<Rightarrow> nat \<times> int" where
  "closer x k c1 c2 =
     (let d1 = \<bar>decimal_value k c1 - x\<bar>; d2 = \<bar>decimal_value k c2 - x\<bar>
      in if d1 < d2 then c1 else if d2 < d1 then c2 else if even (fst c1) then c1 else c2)"

fun shortest_digits :: "nat \<Rightarrow> rat \<Rightarrow> int \<Rightarrow> nat \<Rightarrow> nat \<times> int \<times> nat" where
  "shortest_digits 0 x n k =
     (let c = closer x k (lower_candidate x n k) (upper_candidate x n k)
      in (fst c, snd c, k))"
| "shortest_digits (Suc fuel) x n k =
     (let lo = lower_candidate x n k; hi = upper_candidate x n k
      in if round_trips x k lo \<and> round_trips x k hi then
           (let c = closer x k lo hi in (fst c, snd c, k))
         else if round_trips x k lo then (fst lo, snd lo, k)
         else if round_trips x k hi then (fst hi, snd hi, k)
         else shortest_digits fuel x n (k + 1))"

definition positive_toString :: "rat \<Rightarrow> string" where
  "positive_toString x =
     (let snk = shortest_digits 16 x (floor_log 10 x + 1) 1;
          s = fst snk; n = fst (snd snk); k = snd (snd snk);
          ds = show_nat s
      in if int k \<le> n \<and> n \<le> 21 then ds @ replicate (nat (n - int k)) CHR ''0''
         else if 0 < n \<and> n \<le> 21 then take (nat n) ds @ ''.'' @ drop (nat n) ds
         else if - 6 < n \<and> n \<le> 0 then ''0.'' @ replicate (nat (- n)) CHR ''0'' @ ds
         else
           (let e = n - 1;
                es = (if e < 0 then ''-'' else ''+'') @ show_nat (nat \<bar>e\<bar>)
            in if k = 1 then ds @ ''e'' @ es
               else take 1 ds @ ''.'' @ drop 1 ds @ ''e'' @ es))"

definition number_toString :: "number \<Rightarrow> string" where
  "number_toString x =
     (case x of
        NaN \<Rightarrow> ''NaN''
      | PosInfinity \<Rightarrow> ''Infinity''
      | NegInfinity \<Rightarrow> ''-Infinity''
      | Finite v \<Rightarrow>
          if v = 0 then ''0''
          else if v < 0 then ''-'' @ positive_toString (- v)
          else positive_toString v)"

text \<open>
  \<^verbatim>\<open>x.toFixed(f)\<close>: a \<open>RangeError\<close> for \<open>f\<close> above 100; \<^verbatim>\<open>toString\<close> for a value that is
  not finite or is at least \<open>10 ^ 21\<close> in size; otherwise the integer \<open>n\<close> nearest to
  \<open>x * 10 ^ f\<close> (the larger of two), printed with \<open>f\<close> digits after the point.
\<close>

definition toFixed :: "number \<Rightarrow> nat \<Rightarrow> error + string" where
  "toFixed x f =
     (if 100 < f then Inl RangeError
      else
        (case x of
           Finite v \<Rightarrow>
             (let a = \<bar>v\<bar>; sgn = (if v < 0 then ''-'' else '''')
              in if 10 ^ 21 \<le> a then Inr (sgn @ number_toString (Finite a))
                 else
                   (let n = nat \<lfloor>a * 10 ^ f + 1 / 2\<rfloor>;
                        m = show_nat n;
                        m2 = (if length m \<le> f
                              then replicate (f + 1 - length m) CHR ''0'' @ m else m)
                    in if f = 0 then Inr (sgn @ m)
                       else Inr (sgn @ take (length m2 - f) m2 @ ''.''
                                   @ drop (length m2 - f) m2)))
         | _ \<Rightarrow> Inr (number_toString x)))"

text \<open>
  The integer that \<^verbatim>\<open>toFixed(1)\<close> prints: the number of tenths nearest to the size of \<open>y\<close>,
  the larger of two that are equally near.
\<close>

definition nearest_tenths :: "rat \<Rightarrow> nat" where
  "nearest_tenths y = nat \<lfloor>\<bar>y\<bar> * 10 + 1 / 2\<rfloor>"

section \<open>The current date\<close>

text \<open>
  \<^verbatim>\<open>new Date()\<close> reads the wall clock. The clock is the parameter \<open>now\<close> of every function
  that reads it: a \<^verbatim>\<open>Date\<close> as its local-time calendar fields, the month counted from 0 as
  \<^verbatim>\<open>getMonth()\<close> gives it. The constructor takes local-time fields and the getters give
  them back. One render pass is evaluated at one \<open>now\<close>.
\<close>

record js_date =
  getFullYear :: int
  getMonth :: int
  getDate :: int
  getHours :: int
  getMinutes :: int
  getSeconds :: int
  getMilliseconds :: int

text \<open>
  \<^verbatim>\<open>new Date(y, m, 1)\<close>, local midnight on the first day of a month: a year from 0 to 99
  means 1900 + y, and a month outside 0..11 carries into the year. The model leaves out
  the range of time values (years about -271821 to 275760) beyond which the result is an
  invalid date.
\<close>

definition new_Date_first :: "int \<Rightarrow> int \<Rightarrow> js_date" where
  "new_Date_first y m =
     (let yr = (if 0 \<le> y \<and> y \<le> 99 then 1900 + y else y)
      in \<lparr>getFullYear = yr + m div 12, getMonth = m mod 12, getDate = 1,
          getHours = 0, getMinutes = 0, getSeconds = 0, getMilliseconds = 0\<rparr>)"

text \<open>\<^verbatim>\<open>String(i)\<close> and \<^verbatim>\<open>`${i}`\<close> of an integer Number below \<open>10 ^ 21\<close> in size.\<close>

definition int_toString :: "int \<Rightarrow> string" where
  "int_toString i = (if i < 0 then ''-'' @ show_nat (nat (- i)) else show_nat (nat i))"

text \<open>\<^verbatim>\<open>getPrevMonthKey\<close> (table-script.tsx lines 38-45, part_000 lines 22-29).\<close>

definition getPrevMonthKey :: "js_date \<Rightarrow> string" where
  "getPrevMonthKey now =
     (let prev = new_Date_first (getFullYear now) (getMonth now - 1)
      in int_toString (getFullYear prev) @ ''-''
           @ padStart 2 ''0'' (int_toString (getMonth prev + 1)))"

text \<open>
  A date that a wall clock shows: on or after the epoch year 1970, inside the range of
  \<^verbatim>\<open>Date\<close>, with \<^verbatim>\<open>getMonth()\<close> from 0 to 11.
\<close>

definition wall_clock :: "js_date \<Rightarrow> bool" where
  "wall_clock now =
     (1970 \<le> getFullYear now \<and> getFullYear now \<le> 275760
      \<and> 0 \<le> getMonth now \<and> getMonth now \<le> 11)"

text \<open>
  The previous-month key in the words of the specification, over a year and a month
  counted from 1: the calendar month before, December of the year before for January,
  written as the year, a hyphen and the month in two digits.
\<close>

definition previous_month :: "int \<times> int \<Rightarrow> int \<times> int" where
  "previous_month ym = (if snd ym = 1 then (fst ym - 1, 12) else (fst ym, snd ym - 1))"

definition year_month_key :: "int \<times> int \<Rightarrow> string" where
  "year_month_key ym =
     show_nat (nat (fst ym)) @ ''-''
       @ (if snd ym < 10 then ''0'' @ show_nat (nat (snd ym)) else show_nat (nat (snd ym)))"

section \<open>The source records and the display row\<close>

text \<open>
  Modelled from the spec: the type declarations \<^verbatim>\<open>SourceDataType\<close> and \<^verbatim>\<open>TableDataType\<close> of
  \<^verbatim>\<open>./types\<close>, which both sources import and which is not among them. The records follow
  section 3 of the specification and the property paths the code reads. Every property
  may be absent (\<open>None\<close> is \<^verbatim>\<open>undefined\<close>; a \<^verbatim>\<open>null\<close> is not told apart from it); a property
  that is present has its declared type, and an array holds objects.
\<close>

record lastThreeMonthsEntry =
  month :: "string option"
  utilisationRate :: "string option"

record workforceUtilisation =
  utilisationRateLastTwelveMonths :: "string option"
  utilisationRateYearToDate :: "string option"
  lastThreeMonthsIndividually :: "lastThreeMonthsEntry list option"

record potentialEarningsEntry =
  month :: "string option"
  costs :: "string option"

record costsByMonth =
  potentialEarningsByMonth :: "potentialEarningsEntry list option"

record statusAggregation =
  status :: "string option"

text \<open>The properties that an employee and an external share.\<close>

record personBase =
  firstname :: "string option"
  lastname :: "string option"
  workforceUtilisation :: "workforceUtilisation option"

record employees = personBase +
  statusAggregation :: "statusAggregation option"
  costsByMonth :: "costsByMonth option"

record externals = personBase +
  status :: "string option"

record SourceDataType =
  employees :: "employees option"
  externals :: "externals option"

record TableDataType =
  person :: string
  past12Months :: string
  y2d :: string
  may :: string
  june :: string
  july :: string
  netEarningsPrevMonth :: string

text \<open>An employee or an external, seen through the shared properties only.\<close>

definition as_person :: "'a personBase_scheme \<Rightarrow> personBase" where
  "as_person p =
     \<lparr>firstname = firstname p, lastname = lastname p,
      workforceUtilisation = workforceUtilisation p\<rparr>"

text \<open>\<^verbatim>\<open>rows.filter((row) => row !== null)\<close>.\<close>

definition filter_non_null :: "'a option list \<Rightarrow> 'a list" where
  "filter_non_null rows = List.map_filter (\<lambda>r. r) rows"

section \<open>The functions the two sources share\<close>

text \<open>
  \<^verbatim>\<open>parseRate\<close> (table-script.tsx lines 79-80, part_000 lines 70-71):
  \<^verbatim>\<open>value ? `${(parseFloat(value) * 100).toFixed(1)}%` : "0%"\<close>. Of the strings only the
  empty one is falsy.
\<close>

definition parseRate :: "string option \<Rightarrow> error + string" where
  "parseRate v =
     (case v of
        None \<Rightarrow> Inr ''0%''
      | Some s \<Rightarrow>
          if s = [] then Inr ''0%''
          else bindE (toFixed (multiply (parseFloat s) (Finite 100)) 1)
                 (\<lambda>t. Inr (t @ ''%'')))"

text \<open>
  \<^verbatim>\<open>getNetEarningsPrevMonth\<close> (table-script.tsx lines 48-56, part_000 lines 32-40), with its
  local constants \<^verbatim>\<open>earningsArr\<close> and \<^verbatim>\<open>match\<close> as functions of their own.
\<close>

definition earningsArr :: "SourceDataType \<Rightarrow> potentialEarningsEntry list" where
  "earningsArr dataRow =
     (case Option.bind (Option.bind (employees dataRow) costsByMonth)
             potentialEarningsByMonth of
        None \<Rightarrow> []
      | Some arr \<Rightarrow> arr)"

definition earnings_match :: "js_date \<Rightarrow> SourceDataType \<Rightarrow> potentialEarningsEntry option" where
  "earnings_match now dataRow =
     (let prevMonthKey = getPrevMonthKey now
      in List.find (\<lambda>e. potentialEarningsEntry.month e = Some prevMonthKey)
           (earningsArr dataRow))"

definition getNetEarningsPrevMonth :: "js_date \<Rightarrow> SourceDataType \<Rightarrow> string" where
  "getNetEarningsPrevMonth now dataRow =
     (let raw = parseFloat
                  (case Option.bind (earnings_match now dataRow) costs of
                     None \<Rightarrow> ''0''
                   | Some c \<Rightarrow> c)
      in number_toString raw @ '' '' @ euro)"

text \<open>
  The rate of a named month: \<^verbatim>\<open>find((m) => m.month === name)?.utilisationRate\<close> over the
  array of the last three months.
\<close>

definition month_rate :: "lastThreeMonthsEntry list \<Rightarrow> string \<Rightarrow> string option" where
  "month_rate ms name =
     Option.bind (List.find (\<lambda>m. lastThreeMonthsEntry.month m = Some name) ms)
       utilisationRate"

section \<open>The projection of table-script.tsx\<close>

text \<open>
  The rest of the \<^verbatim>\<open>map\<close> callback (lines 72-101) once a record has passed the status
  checks. \<^verbatim>\<open>dataRow.employees!\<close> asserts and checks nothing, so \<open>person\<close> may be
  \<^verbatim>\<open>undefined\<close>, and then \<^verbatim>\<open>person.workforceUtilisation\<close> throws.
\<close>

definition inline_build :: "js_date \<Rightarrow> SourceDataType \<Rightarrow> bool \<Rightarrow> error + TableDataType option" where
  "inline_build now dataRow isEmployee =
     (let person = (if isEmployee then map_option as_person (employees dataRow)
                    else map_option as_person (externals dataRow))
      in case person of
           None \<Rightarrow> Inl TypeError
         | Some p \<Rightarrow>
             (let util = workforceUtilisation p;
                  lastThreeMonths =
                    (case Option.bind util lastThreeMonthsIndividually of
                       None \<Rightarrow> []
                     | Some ms \<Rightarrow> ms)
              in bindE (parseRate (Option.bind util utilisationRateLastTwelveMonths)) (\<lambda>r12.
                 bindE (parseRate (Option.bind util utilisationRateYearToDate)) (\<lambda>ry.
                 bindE (parseRate (month_rate lastThreeMonths ''May'')) (\<lambda>rmay.
                 bindE (parseRate (month_rate lastThreeMonths ''June'')) (\<lambda>rjune.
                 bindE (parseRate (month_rate lastThreeMonths ''July'')) (\<lambda>rjuly.
                 Inr (Some
                   \<lparr>person = template_str (firstname p) @ '' '' @ template_str (lastname p),
                    past12Months = r12, y2d = ry, may = rmay, june = rjune, july = rjuly,
                    netEarningsPrevMonth = getNetEarningsPrevMonth now dataRow\<rparr>))))))))"

text \<open>The \<^verbatim>\<open>map\<close> callback (lines 59-102): \<open>None\<close> is the \<^verbatim>\<open>null\<close> of a record left out.\<close>

definition inline_row :: "js_date \<Rightarrow> SourceDataType \<Rightarrow> error + TableDataType option" where
  "inline_row now dataRow =
     (let isEmployee = (employees dataRow \<noteq> None);
          isExternal = (externals dataRow \<noteq> None)
      in if isEmployee then
           (if Option.bind (Option.bind (employees dataRow) statusAggregation)
                 statusAggregation.status = Some ''Inaktiv''
            then Inr None
            else inline_build now dataRow isEmployee)
         else if isExternal then
           (if Option.bind (externals dataRow) externals.status \<noteq> Some ''active''
            then Inr None
            else inline_build now dataRow isEmployee)
         else Inr None)"

text \<open>\<^verbatim>\<open>tableData\<close> of table-script.tsx (lines 58-103), over the source data \<open>rs\<close>.\<close>

definition tableData_inline :: "js_date \<Rightarrow> SourceDataType list \<Rightarrow> error + TableDataType list" where
  "tableData_inline now rs = bindE (mapE (inline_row now) rs) (\<lambda>rows. Inr (filter_non_null rows))"

section \<open>The projection of part_000\<close>

text \<open>The predicate helpers (lines 43-57) and \<^verbatim>\<open>extractPerson\<close> (lines 60-61).\<close>

definition isInactiveEmployee :: "SourceDataType \<Rightarrow> bool" where
  "isInactiveEmployee dataRow =
     (case employees dataRow of
        None \<Rightarrow> False
      | Some e \<Rightarrow> Option.bind (statusAggregation e) statusAggregation.status = Some ''Inaktiv'')"

definition isInactiveExternal :: "SourceDataType \<Rightarrow> bool" where
  "isInactiveExternal dataRow =
     (case externals dataRow of
        None \<Rightarrow> False
      | Some x \<Rightarrow> externals.status x \<noteq> Some ''active'')"

definition truthy :: "string option \<Rightarrow> bool" where
  "truthy v = (case v of None \<Rightarrow> False | Some s \<Rightarrow> s \<noteq> [])"

definition hasValidName :: "personBase option \<Rightarrow> bool" where
  "hasValidName p =
     (truthy (Option.bind p firstname) \<and> truthy (Option.bind p lastname))"

definition extractPerson :: "SourceDataType \<Rightarrow> personBase option" where
  "extractPerson dataRow =
     (case employees dataRow of
        Some e \<Rightarrow> Some (as_person e)
      | None \<Rightarrow> map_option as_person (externals dataRow))"

definition isValidRow :: "SourceDataType \<Rightarrow> bool" where
  "isValidRow dataRow =
     (let person = (case employees dataRow of
                      Some e \<Rightarrow> Some (as_person e)
                    | None \<Rightarrow> map_option as_person (externals dataRow))
      in \<not> isInactiveEmployee dataRow \<and> \<not> isInactiveExternal dataRow \<and> hasValidName person)"

text \<open>The \<^verbatim>\<open>map\<close> callback (lines 66-89).\<close>

definition refactored_row :: "js_date \<Rightarrow> SourceDataType \<Rightarrow> error + TableDataType option" where
  "refactored_row now dataRow =
     (let person = extractPerson dataRow;
          util = Option.bind person workforceUtilisation;
          getMonthRate = (\<lambda>name.
            parseRate
              (Option.bind
                 (Option.bind (Option.bind util lastThreeMonthsIndividually)
                    (List.find (\<lambda>m. lastThreeMonthsEntry.month m = Some name)))
                 utilisationRate))
      in case person of
           None \<Rightarrow> Inr None
         | Some p \<Rightarrow>
             bindE (parseRate (Option.bind util utilisationRateLastTwelveMonths)) (\<lambda>r12.
             bindE (parseRate (Option.bind util utilisationRateYearToDate)) (\<lambda>ry.
             bindE (getMonthRate ''May'') (\<lambda>rmay.
             bindE (getMonthRate ''June'') (\<lambda>rjune.
             bindE (getMonthRate ''July'') (\<lambda>rjuly.
             Inr (Some
               \<lparr>person = template_str (firstname p) @ '' '' @ template_str (lastname p),
                past12Months = r12, y2d = ry, may = rmay, june = rjune, july = rjuly,
                netEarningsPrevMonth = getNetEarningsPrevMonth now dataRow\<rparr>)))))))"

text \<open>\<^verbatim>\<open>tableData\<close> of part_000 (lines 64-90).\<close>

definition tableData_refactored :: "js_date \<Rightarrow> SourceDataType list \<Rightarrow> error + TableDataType list" where
  "tableData_refactored now rs =
     bindE (mapE (refactored_row now) (filter isValidRow rs))
       (\<lambda>rows. Inr (filter_non_null rows))"

section \<open>What a record is projected to\<close>

text \<open>
  Both \<^verbatim>\<open>map\<close> callbacks build the same object from a record that they keep, and
  \<^verbatim>\<open>toFixed(1)\<close> never throws. \<open>display_row\<close> is that object, as a function of the record:
  the row of a record in the claims below. \<open>inline_keeps\<close> is the condition under which the
  callback of table-script.tsx returns a row and not \<^verbatim>\<open>null\<close>.
\<close>

definition rate_text :: "string option \<Rightarrow> string" where
  "rate_text v = (case parseRate v of Inr t \<Rightarrow> t | Inl e \<Rightarrow> [])"

definition utilisation_of :: "SourceDataType \<Rightarrow> workforceUtilisation option" where
  "utilisation_of dataRow = Option.bind (extractPerson dataRow) workforceUtilisation"

definition months_of :: "SourceDataType \<Rightarrow> lastThreeMonthsEntry list" where
  "months_of dataRow =
     (case Option.bind (utilisation_of dataRow) lastThreeMonthsIndividually of
        None \<Rightarrow> []
      | Some ms \<Rightarrow> ms)"

definition display_row :: "js_date \<Rightarrow> SourceDataType \<Rightarrow> TableDataType" where
  "display_row now dataRow =
     \<lparr>person = template_str (Option.bind (extractPerson dataRow) firstname) @ '' ''
                 @ template_str (Option.bind (extractPerson dataRow) lastname),
      past12Months =
        rate_text (Option.bind (utilisation_of dataRow) utilisationRateLastTwelveMonths),
      y2d = rate_text (Option.bind (utilisation_of dataRow) utilisationRateYearToDate),
      may = rate_text (month_rate (months_of dataRow) ''May''),
      june = rate_text (month_rate (months_of dataRow) ''June''),
      july = rate_text (month_rate (months_of dataRow) ''July''),
      netEarningsPrevMonth = getNetEarningsPrevMonth now dataRow\<rparr>"

definition inline_keeps :: "SourceDataType \<Rightarrow> bool" where
  "inline_keeps dataRow =
     (case employees dataRow of
        Some e \<Rightarrow> Option.bind (statusAggregation e) statusAggregation.status \<noteq> Some ''Inaktiv''
      | None \<Rightarrow>
          (case externals dataRow of
             Some x \<Rightarrow> externals.status x = Some ''active''
           | None \<Rightarrow> False))"

section \<open>Concrete dates and records\<close>

text \<open>The inputs at which the theorems below are evaluated.\<close>

definition jan_31_2026 :: js_date where
  "jan_31_2026 =
     \<lparr>getFullYear = 2026, getMonth = 0, getDate = 31, getHours = 9, getMinutes = 30,
      getSeconds = 0, getMilliseconds = 0\<rparr>"

definition jan_1_2026 :: js_date where
  "jan_1_2026 =
     \<lparr>getFullYear = 2026, getMonth = 0, getDate = 1, getHours = 0, getMinutes = 0,
      getSeconds = 0, getMilliseconds = 0\<rparr>"

text \<open>The employee of the scenario in section 8 of the specification.\<close>

definition jane_employee :: employees where
  "jane_employee =
     \<lparr>firstname = Some ''Jane'', lastname = Some ''Doe'',
      workforceUtilisation = Some
        \<lparr>utilisationRateLastTwelveMonths = Some ''0.89'',
         utilisationRateYearToDate = Some ''0.75'',
         lastThreeMonthsIndividually = Some
           [\<lparr>lastThreeMonthsEntry.month = Some ''June'', utilisationRate = Some ''0.72''\<rparr>]\<rparr>,
      statusAggregation = Some \<lparr>statusAggregation.status = Some ''Aktiv''\<rparr>,
      costsByMonth = Some
        \<lparr>potentialEarningsByMonth = Some
           [\<lparr>potentialEarningsEntry.month = Some ''2025-12'', costs = Some ''3500''\<rparr>]\<rparr>\<rparr>"

definition jane :: SourceDataType where
  "jane = \<lparr>employees = Some jane_employee, externals = None\<rparr>"

text \<open>An employee with nothing but a name, a status and the given year-to-date rate.\<close>

definition employee_with :: "string option \<Rightarrow> string option \<Rightarrow> string option \<Rightarrow> SourceDataType" where
  "employee_with first_name last_name rate =
     \<lparr>employees = Some
        \<lparr>firstname = first_name, lastname = last_name,
         workforceUtilisation = Some
           \<lparr>utilisationRateLastTwelveMonths = None,
            utilisationRateYearToDate = rate,
            lastThreeMonthsIndividually = None\<rparr>,
         statusAggregation = Some \<lparr>statusAggregation.status = Some ''Aktiv''\<rparr>,
         costsByMonth = None\<rparr>,
      externals = None\<rparr>"

text \<open>An active external with the given name and nothing else.\<close>

definition external_with :: "string option \<Rightarrow> string option \<Rightarrow> SourceDataType" where
  "external_with first_name last_name =
     \<lparr>employees = None,
      externals = Some
        \<lparr>firstname = first_name, lastname = last_name, workforceUtilisation = None,
         status = Some ''active''\<rparr>\<rparr>"

text \<open>
  An employee with a name, no status and no utilisation, whose earnings of December 2025
  have the given costs.
\<close>

definition costs_employee :: "string option \<Rightarrow> employees" where
  "costs_employee c =
     \<lparr>firstname = Some ''Jane'', lastname = Some ''Doe'', workforceUtilisation = None,
      statusAggregation = None,
      costsByMonth = Some
        \<lparr>potentialEarningsByMonth = Some
           [\<lparr>potentialEarningsEntry.month = Some ''2025-12'', costs = c\<rparr>]\<rparr>\<rparr>"

definition employee_with_costs :: "string option \<Rightarrow> SourceDataType" where
  "employee_with_costs c = \<lparr>employees = Some (costs_employee c), externals = None\<rparr>"

text \<open>
  An active external all of whose rates, the two totals and the three months, are the
  string \<^verbatim>\<open>abc\<close>.
\<close>

definition malformed_external :: SourceDataType where
  "malformed_external =
     \<lparr>employees = None,
      externals = Some
        \<lparr>firstname = Some ''Max'', lastname = Some ''Muster'',
         workforceUtilisation = Some
           \<lparr>utilisationRateLastTwelveMonths = Some ''abc'',
            utilisationRateYearToDate = Some ''abc'',
            lastThreeMonthsIndividually = Some
              [\<lparr>lastThreeMonthsEntry.month = Some ''May'', utilisationRate = Some ''abc''\<rparr>,
               \<lparr>lastThreeMonthsEntry.month = Some ''June'', utilisationRate = Some ''abc''\<rparr>,
               \<lparr>lastThreeMonthsEntry.month = Some ''July'', utilisationRate = Some ''abc''\<rparr>]\<rparr>,
         status = Some ''active''\<rparr>\<rparr>"

section \<open>The projections never throw\<close>

lemma mapE_total: "(\<And>x. f x = Inr (g x)) \<Longrightarrow> mapE f xs = Inr (map g xs)"
  by (induction xs) simp_all

lemma toFixed_1_total: "\<exists>t. toFixed x 1 = Inr t"
  by (cases x) (simp_all add: toFixed_def Let_def)

lemma parseRate_total: "parseRate v = Inr (rate_text v)"
proof -
  have "\<exists>t. parseRate v = Inr t"
  proof (cases v)
    case None
    then show ?thesis by (simp add: parseRate_def)
  next
    case (Some s)
    obtain t where "toFixed (multiply (parseFloat s) (Finite 100)) 1 = Inr t"
      using toFixed_1_total by blast
    with Some show ?thesis by (simp add: parseRate_def bindE_def)
  qed
  then show ?thesis by (auto simp: rate_text_def)
qed

lemma inline_build_employee:
  "employees r = Some e \<Longrightarrow> inline_build now r True = Inr (Some (display_row now r))"
  by (simp add: inline_build_def Let_def parseRate_total bindE_def display_row_def utilisation_of_def months_of_def
      extractPerson_def)

lemma inline_build_external:
  "employees r = None \<Longrightarrow> externals r = Some x \<Longrightarrow>
     inline_build now r False = Inr (Some (display_row now r))"
  by (simp add: inline_build_def Let_def parseRate_total bindE_def display_row_def utilisation_of_def months_of_def
      extractPerson_def)

lemma inline_row_eq:
  "inline_row now r = Inr (if inline_keeps r then Some (display_row now r) else None)"
proof (cases "employees r")
  case (Some e)
  then show ?thesis
    by (simp add: inline_row_def inline_keeps_def Let_def inline_build_employee)
next
  case None
  show ?thesis
  proof (cases "externals r")
    case (Some x)
    with None show ?thesis
      by (simp add: inline_row_def inline_keeps_def Let_def inline_build_external)
  next
    case None2: None
    with None show ?thesis
      by (simp add: inline_row_def inline_keeps_def Let_def)
  qed
qed

lemma filter_non_null_if:
  "filter_non_null (map (\<lambda>r. if P r then Some (f r) else None) rs) = map f (filter P rs)"
  by (induction rs) (simp_all add: filter_non_null_def List.map_filter_simps)

lemma tableData_inline_eq:
  "tableData_inline now rs = Inr (map (display_row now) (filter inline_keeps rs))"
  by (simp add: tableData_inline_def bindE_def inline_row_eq filter_non_null_if
      mapE_total [where g = "\<lambda>r. if inline_keeps r then Some (display_row now r) else None"])

lemma isValidRow_person: "isValidRow r \<Longrightarrow> extractPerson r = None \<Longrightarrow> False"
  by (cases "employees r"; cases "externals r")
    (simp_all add: isValidRow_def hasValidName_def truthy_def extractPerson_def Let_def)

lemma refactored_row_eq:
  "refactored_row now r =
     Inr (if extractPerson r = None then None else Some (display_row now r))"
proof (cases "extractPerson r")
  case None
  then show ?thesis by (simp add: refactored_row_def)
next
  case (Some p)
  show ?thesis
  proof (cases "workforceUtilisation p")
    case None
    with Some show ?thesis
      by (simp add: refactored_row_def Let_def parseRate_total bindE_def display_row_def utilisation_of_def months_of_def
          month_rate_def)
  next
    case util: (Some u)
    show ?thesis
    proof (cases "lastThreeMonthsIndividually u")
      case None
      with Some util show ?thesis
        by (simp add: refactored_row_def Let_def parseRate_total bindE_def display_row_def utilisation_of_def months_of_def
            month_rate_def)
    next
      case ms: (Some ms)
      with Some util show ?thesis
        by (simp add: refactored_row_def Let_def parseRate_total bindE_def display_row_def utilisation_of_def months_of_def
            month_rate_def)
    qed
  qed
qed

lemma filter_non_null_valid:
  "filter_non_null (map (\<lambda>r. if extractPerson r = None then None else Some (f r))
     (filter isValidRow rs)) = map f (filter isValidRow rs)"
proof (induction rs)
  case Nil
  show ?case by (simp add: filter_non_null_def List.map_filter_simps)
next
  case (Cons r rs)
  then show ?case
    using isValidRow_person [of r]
    by (auto simp: filter_non_null_def List.map_filter_simps)
qed

lemma tableData_refactored_eq:
  "tableData_refactored now rs = Inr (map (display_row now) (filter isValidRow rs))"
  by (simp add: tableData_refactored_def bindE_def refactored_row_eq filter_non_null_valid
      mapE_total [where g = "\<lambda>r. if extractPerson r = None then None else Some (display_row now r)"])

section \<open>Rounding to a double\<close>

lemma floor_log_bounds:
  assumes a: "0 < a" and b: "1 < b"
  shows "of_nat b powi floor_log b a \<le> a \<and> a < of_nat b powi (floor_log b a + 1)"
proof -
  define p where "p = fst (quotient_of a)"
  define q where "q = snd (quotient_of a)"
  define P where "P = floorlog b (nat p)"
  define Q where "Q = floorlog b (nat q)"
  define B :: rat where "B = of_nat b"
  define d where "d = int P - int Q"
  have pq: "quotient_of a = (p, q)" by (simp add: p_def q_def)
  have q0: "0 < q" using quotient_of_denom_pos [OF pq] .
  have a_eq: "a = of_int p / of_int q" using quotient_of_div [OF pq] .
  have p0: "0 < p"
    using a q0 by (simp add: a_eq zero_less_divide_iff)
  have B1: "1 < B" using b by (simp add: B_def)
  have B0: "0 < B" using B1 by simp
  have bp: "b ^ (P - 1) \<le> nat p \<and> nat p < b ^ P"
    unfolding P_def using floorlog_bounds [of "nat p" b] p0 b by simp
  have bq: "b ^ (Q - 1) \<le> nat q \<and> nat q < b ^ Q"
    unfolding Q_def using floorlog_bounds [of "nat q" b] q0 b by simp
  have P1: "1 \<le> P" using bp p0 by (cases P) auto
  have Q1: "1 \<le> Q" using bq q0 by (cases Q) auto
  have rp: "B ^ (P - 1) \<le> of_int p \<and> of_int p < B ^ P"
  proof -
    have "(of_nat (b ^ (P - 1)) :: rat) \<le> of_nat (nat p) \<and> (of_nat (nat p) :: rat) < of_nat (b ^ P)"
      using bp by (simp only: of_nat_le_iff of_nat_less_iff)
    moreover have "(of_nat (nat p) :: rat) = of_int p" using p0 by simp
    ultimately show ?thesis by (simp add: B_def)
  qed
  have rq: "B ^ (Q - 1) \<le> of_int q \<and> of_int q < B ^ Q"
  proof -
    have "(of_nat (b ^ (Q - 1)) :: rat) \<le> of_nat (nat q) \<and> (of_nat (nat q) :: rat) < of_nat (b ^ Q)"
      using bq by (simp only: of_nat_le_iff of_nat_less_iff)
    moreover have "(of_nat (nat q) :: rat) = of_int q" using q0 by simp
    ultimately show ?thesis by (simp add: B_def)
  qed
  have qpos: "(0::rat) < of_int q" using q0 by simp
  have ppos: "(0::rat) < of_int p" using p0 by simp
  have upper: "a < B powi (d + 1)"
  proof -
    have "a < B ^ P / of_int q"
      unfolding a_eq using rp qpos by (simp add: divide_strict_right_mono)
    also have "\<dots> \<le> B ^ P / B ^ (Q - 1)"
      using rq B0 by (simp add: frac_le)
    also have "\<dots> = B powi (int P - int (Q - 1))"
      using B0 by (simp add: power_int_diff)
    also have "int P - int (Q - 1) = d + 1"
      using Q1 by (simp add: d_def)
    finally show ?thesis .
  qed
  have lower: "B powi (d - 1) < a"
  proof -
    have "B powi (int (P - 1) - int Q) = B ^ (P - 1) / B ^ Q"
      using B0 by (simp add: power_int_diff)
    moreover have "int (P - 1) - int Q = d - 1"
      using P1 by (simp add: d_def)
    ultimately have "B powi (d - 1) = B ^ (P - 1) / B ^ Q" by simp
    also have "\<dots> \<le> of_int p / B ^ Q"
      using rp B0 by (simp add: divide_right_mono)
    also have "\<dots> < of_int p / of_int q"
      using rq ppos qpos by (simp add: divide_strict_left_mono)
    finally show ?thesis by (simp add: a_eq)
  qed
  have fl: "floor_log b a = (if B powi d \<le> a then d else d - 1)"
    by (simp add: floor_log_def Let_def p_def q_def P_def Q_def B_def d_def)
  show ?thesis
  proof (cases "B powi d \<le> a")
    case True
    with upper fl show ?thesis by (simp add: B_def)
  next
    case False
    with lower fl show ?thesis by (simp add: B_def)
  qed
qed

lemma floor_log_unique:
  assumes a: "0 < a" and b: "1 < b"
    and lo: "of_nat b powi e \<le> a" and hi: "a < of_nat b powi (e + 1)"
  shows "floor_log b a = e"
proof -
  define B :: rat where "B = of_nat b"
  define f where "f = floor_log b a"
  have B1: "1 \<le> B" using b by (simp add: B_def)
  have bnd: "B powi f \<le> a \<and> a < B powi (f + 1)"
    unfolding B_def f_def by (rule floor_log_bounds [OF a b])
  have 1: "f < e + 1"
  proof (rule ccontr)
    assume "\<not> f < e + 1"
    then have "B powi (e + 1) \<le> B powi f"
      using B1 by (intro power_int_increasing) simp_all
    with bnd hi show False by (simp add: B_def)
  qed
  have 2: "e < f + 1"
  proof (rule ccontr)
    assume "\<not> e < f + 1"
    then have "B powi (f + 1) \<le> B powi e"
      using B1 by (intro power_int_increasing) simp_all
    with bnd lo show False by (simp add: B_def)
  qed
  from 1 2 show ?thesis by (simp add: f_def)
qed

lemma round_half_even_near:
  assumes "\<bar>x - of_int n\<bar> < 1 / 2"
  shows "round_half_even x = n"
proof -
  have lo: "of_int n - 1 / 2 < x" and hi: "x < of_int n + 1 / 2"
    using assms by linarith+
  show ?thesis
  proof (cases "of_int n \<le> x")
    case True
    have f: "\<lfloor>x\<rfloor> = n"
    proof (rule floor_unique)
      show "of_int n \<le> x" by (rule True)
      show "x < of_int n + 1" using hi by linarith
    qed
    have "x - of_int n < 1 / 2" using hi by linarith
    then show ?thesis by (simp add: round_half_even_def Let_def f)
  next
    case False
    have f: "\<lfloor>x\<rfloor> = n - 1"
    proof (rule floor_unique)
      show "of_int (n - 1) \<le> x" using lo by simp
      show "x < of_int (n - 1) + 1" using False by simp
    qed
    have 1: "\<not> x - of_int (n - 1) < 1 / 2" using lo by simp
    have 2: "1 / 2 < x - of_int (n - 1)" using lo by simp
    show ?thesis
      unfolding round_half_even_def Let_def f using 1 2 by simp
  qed
qed

lemma to_double_pos:
  assumes q: "0 < q"
    and lo: "2 powi e \<le> q" and hi: "q < 2 powi (e + 1)" and e: "- 1022 \<le> e"
    and n: "\<bar>q / 2 powi (e - 52) - of_int n\<bar> < 1 / 2"
    and r: "of_int n * 2 powi (e - 52) < (2::rat) powi 1024"
  shows "to_double q = Finite (of_int n * 2 powi (e - 52))"
proof -
  have fl: "floor_log 2 q = e"
    using floor_log_unique [of q 2 e] q lo hi by simp
  have m: "max e (- 1022) = e" using e by simp
  have rn: "round_half_even (q / 2 powi (e - 52)) = n"
    using n by (rule round_half_even_near)
  have a: "\<bar>q\<bar> = q" using q by simp
  have nr: "\<not> (2::rat) powi 1024 \<le> of_int n * 2 powi (e - 52)"
    using r by (simp only: not_le)
  have q0: "q \<noteq> 0" "\<not> q < 0" using q by simp_all
  show ?thesis
    unfolding to_double_def Let_def a fl m rn
    by (simp only: q0 nr if_False)
qed

lemma to_double_nat:
  assumes m0: "0 < m" and m53: "m < 2 ^ 53"
  shows "to_double (of_nat m) = Finite (of_nat m)"
proof -
  define q :: rat where "q = of_nat m"
  define e where "e = floor_log 2 q"
  have q0: "0 < q" using m0 by (simp add: q_def)
  have q1: "1 \<le> q" using m0 by (simp add: q_def)
  have q53: "q < 2 powi 53"
  proof -
    have "(of_nat m :: rat) < of_nat (2 ^ 53)" using m53 by (simp only: of_nat_less_iff)
    then show ?thesis by (simp add: q_def)
  qed
  have bnd: "2 powi e \<le> q \<and> q < 2 powi (e + 1)"
    using floor_log_bounds [of q 2] q0 by (simp add: e_def)
  have e0: "0 \<le> e"
  proof (rule ccontr)
    assume "\<not> 0 \<le> e"
    then have "(2::rat) powi (e + 1) \<le> 2 powi 0"
      by (intro power_int_increasing) simp_all
    with bnd q1 show False by simp
  qed
  have e52: "e \<le> 52"
  proof (rule ccontr)
    assume "\<not> e \<le> 52"
    then have "(2::rat) powi 53 \<le> 2 powi e"
      by (intro power_int_increasing) simp_all
    with bnd q53 show False by simp
  qed
  define n where "n = int m * 2 ^ nat (52 - e)"
  have p: "(2::rat) powi (52 - e) = 2 ^ nat (52 - e)"
    using e52 by (simp add: power_int_def)
  have cancel: "(2::rat) powi (e - 52) * 2 powi (52 - e) = 1"
    by (simp flip: power_int_add)
  have n_eq: "of_int n = q * 2 powi (52 - e)"
    by (simp add: n_def q_def p)
  have scaled: "of_int n * 2 powi (e - 52) = q"
    using cancel by (simp add: n_eq mult.assoc mult.commute)
  have div_eq: "q / 2 powi (e - 52) = of_int n"
    using cancel by (simp add: n_eq field_simps)
  have "to_double q = Finite (of_int n * 2 powi (e - 52))"
  proof (rule to_double_pos)
    show "0 < q" by (rule q0)
    show "2 powi e \<le> q" using bnd by simp
    show "q < 2 powi (e + 1)" using bnd by simp
    show "- 1022 \<le> e" using e0 by simp
    show "\<bar>q / 2 powi (e - 52) - rat_of_int n\<bar> < 1 / 2" by (simp add: div_eq)
    have "(2::rat) powi 53 \<le> 2 powi 1024"
      by (intro power_int_increasing) simp_all
    with q53 have "q < 2 powi 1024" by simp
    then show "rat_of_int n * 2 powi (e - 52) < 2 powi 1024"
      by (simp only: scaled)
  qed
  then show ?thesis by (simp only: scaled) (simp add: q_def)
qed

lemma d893: "to_double (893 / 1000) = Finite (4021714467241853 / 4503599627370496)"
  using to_double_pos [of "893 / 1000" "- 1" 8043428934483706]
  by (simp add: power_int_minus)

lemma d893_100:
  "to_double (4021714467241853 / 4503599627370496 * 100) = Finite (6283928855065395 / 70368744177664)"
  using to_double_pos [of "4021714467241853 / 4503599627370496 * 100" 6 6283928855065395]
  by (simp add: power_int_minus)

lemma d3500: "to_double 3500 = Finite 3500"
  using to_double_nat [of 3500] by simp

section \<open>Evaluating the number functions\<close>

lemmas parse_defs = parseFloat_def unsigned_decimal_def exponent_part_def is_digit_def
  digit_val_def digits_val_def leading_space_def white_space_def Let_def

lemma floor_numeral_div: "\<lfloor>numeral a / numeral b :: rat\<rfloor> = numeral a div numeral b"
  by (metis floor_divide_of_int_eq of_int_numeral)

lemma parseFloat_3500: "parseFloat ''3500'' = Finite 3500"
  using to_double_nat [of 3500]
  by (simp add: trimStart.simps [of "''3500''"] parse_defs)

lemma parseFloat_0: "parseFloat ''0'' = Finite 0"
  by (simp add: trimStart.simps [of "''0''"] parse_defs to_double_def)

lemma parseFloat_abc: "parseFloat ''abc'' = NaN"
  by (simp add: trimStart.simps [of "''abc''"] parse_defs)

lemma parseFloat_empty: "parseFloat [] = NaN"
  by (simp add: trimStart.simps [of "[]"] parse_defs)

lemma parseFloat_Infinity: "parseFloat ''Infinity'' = PosInfinity"
  by (simp add: trimStart.simps [of "''Infinity''"] parse_defs)

lemma parseFloat_0893:
  "parseFloat ''0.893'' = Finite (4021714467241853 / 4503599627370496)"
  using d893
  by (simp add: trimStart.simps [of "''0.893''"] parse_defs power_int_minus)

lemma floor_log_3500: "floor_log 10 3500 = 3"
  using floor_log_unique [of 3500 10 3] by simp

lemma rt_3000: "round_trips 3500 1 (3, 4) = False"
  using to_double_nat [of 3000] by (simp add: round_trips_def decimal_value_def)

lemma rt_4000: "round_trips 3500 1 (4, 4) = False"
  using to_double_nat [of 4000] by (simp add: round_trips_def decimal_value_def)

lemma rt_3500: "round_trips 3500 2 (35, 4) = True"
  using to_double_nat [of 3500] by (simp add: round_trips_def decimal_value_def)

lemma rt_3600: "round_trips 3500 2 (36, 4) = False"
  using to_double_nat [of 3600] by (simp add: round_trips_def decimal_value_def)

lemma cands_3500:
  "lower_candidate 3500 4 1 = (3, 4)" "upper_candidate 3500 4 1 = (4, 4)"
  "lower_candidate 3500 4 2 = (35, 4)" "upper_candidate 3500 4 2 = (36, 4)"
  by (simp_all add: lower_candidate_def upper_candidate_def Let_def floor_numeral_div)

lemma shortest_digits_next:
  "round_trips x k (lower_candidate x n k) = False \<Longrightarrow>
   round_trips x k (upper_candidate x n k) = False \<Longrightarrow>
   shortest_digits (Suc fuel) x n k = shortest_digits fuel x n (k + 1)"
  by (simp add: Let_def)

lemma shortest_digits_lower:
  "round_trips x k (lower_candidate x n k) = True \<Longrightarrow>
   round_trips x k (upper_candidate x n k) = False \<Longrightarrow>
   shortest_digits (Suc fuel) x n k =
     (fst (lower_candidate x n k), snd (lower_candidate x n k), k)"
  by (simp add: Let_def)

lemma shortest_3500: "shortest_digits 16 3500 4 (Suc 0) = (35, 4, 2)"
proof -
  have "shortest_digits (Suc 15) 3500 4 1 = shortest_digits 15 3500 4 (1 + 1)"
    by (rule shortest_digits_next) (simp_all only: cands_3500 rt_3000 rt_4000)
  also have "\<dots> = shortest_digits (Suc 14) 3500 4 2"
    by (simp add: numeral_2_eq_2)
  also have "\<dots> = (fst (lower_candidate 3500 4 2), snd (lower_candidate 3500 4 2), 2)"
    by (rule shortest_digits_lower) (simp_all only: cands_3500 rt_3500 rt_3600)
  finally show ?thesis
    by (simp add: cands_3500)
qed

lemma show_nat_35: "show_nat 35 = ''35''"
  by (simp add: show_nat.simps digit_char_def)

lemma positive_toString_3500: "positive_toString 3500 = ''3500''"
  unfolding positive_toString_def floor_log_3500 
  by (simp add: shortest_3500 show_nat_35 numeral_2_eq_2)

lemma toString_3500: "number_toString (Finite 3500) = ''3500''"
  by (simp add: number_toString_def positive_toString_3500)

lemma show_nat_not_Nil: "show_nat n \<noteq> []"
  by (subst show_nat.simps) simp

lemma show_nat_small: "n < 10 \<Longrightarrow> show_nat n = [digit_char n]"
  by (subst show_nat.simps) simp

lemma show_nat_large:
  "10 \<le> n \<Longrightarrow> show_nat n = show_nat (n div 10) @ [digit_char (n mod 10)]"
  by (subst show_nat.simps) simp

text \<open>\<open>show_nat\<close> writes digits only, and they are the number's decimal digits.\<close>

lemma digit_char_cases:
  assumes "d < 10"
  shows "is_digit (digit_char d) \<and> digit_val (digit_char d) = d"
proof -
  have "d = 0 \<or> d = 1 \<or> d = 2 \<or> d = 3 \<or> d = 4 \<or> d = 5 \<or> d = 6 \<or> d = 7 \<or> d = 8 \<or> d = 9"
    using assms by arith
  then show ?thesis
    by (elim disjE) (simp_all add: digit_char_def is_digit_def digit_val_def)
qed

lemma digits_val_snoc: "digits_val (ds @ [c]) = 10 * digits_val ds + digit_val c"
  by (simp add: digits_val_def)

lemma show_nat_digits: "list_all is_digit (show_nat n) \<and> digits_val (show_nat n) = n"
proof (induction n rule: show_nat.induct)
  case (1 n)
  show ?case
  proof (cases "n < 10")
    case True
    then show ?thesis
      using digit_char_cases [of n] by (simp add: show_nat_small digits_val_def)
  next
    case False
    then have "list_all is_digit (show_nat (n div 10)) \<and> digits_val (show_nat (n div 10)) = n div 10"
      using "1.IH" by simp
    moreover have "is_digit (digit_char (n mod 10)) \<and> digit_val (digit_char (n mod 10)) = n mod 10"
      by (rule digit_char_cases) simp
    ultimately show ?thesis
      using False by (simp add: show_nat_large digits_val_snoc)
  qed
qed

lemma toFixed_1_finite:
  assumes "\<bar>v\<bar> < 10 ^ 21"
  shows "toFixed (Finite v) 1 =
           Inr ((if v < 0 then ''-'' else '''') @ show_nat (nearest_tenths v div 10) @ ''.''
                  @ [digit_char (nearest_tenths v mod 10)])"
proof -
  define n where "n = nearest_tenths v"
  define m where "m = show_nat n"
  define m2 where "m2 = (if length m \<le> 1 then replicate (1 + 1 - length m) CHR ''0'' @ m else m)"
  have split: "take (length m2 - 1) m2 = show_nat (n div 10) \<and>
               drop (length m2 - 1) m2 = [digit_char (n mod 10)]"
  proof (cases "n < 10")
    case True
    then have "m = [digit_char n]" by (simp add: m_def show_nat_small)
    then have "m2 = [CHR ''0'', digit_char n]" by (simp add: m2_def)
    moreover have "show_nat (n div 10) = ''0''"
      using True by (simp add: show_nat_small digit_char_def)
    ultimately show ?thesis using True by simp
  next
    case False
    then have m: "m = show_nat (n div 10) @ [digit_char (n mod 10)]"
      by (simp add: m_def show_nat_large)
    have "1 \<le> length (show_nat (n div 10))"
      using show_nat_not_Nil [of "n div 10"] by (cases "show_nat (n div 10)") simp_all
    then have "m2 = m" by (simp add: m2_def m show_nat_not_Nil)
    then show ?thesis by (simp add: m)
  qed
  have "\<not> 10 ^ 21 \<le> \<bar>v\<bar>" using assms by simp
  then have "toFixed (Finite v) 1 =
      Inr ((if v < 0 then ''-'' else '''') @ take (length m2 - 1) m2 @ ''.'' @ drop (length m2 - 1) m2)"
    by (simp add: toFixed_def Let_def m2_def m_def n_def nearest_tenths_def)
  then show ?thesis
    using split by (simp add: n_def)
qed

lemma parseRate_0893: "parseRate (Some ''0.893'') = Inr ''89.3%''"
proof -
  have m: "multiply (parseFloat ''0.893'') (Finite 100)
            = Finite (6283928855065395 / 70368744177664)"
    using d893_100 by (simp add: parseFloat_0893 multiply_def)
  have t: "nearest_tenths (6283928855065395 / 70368744177664) = 893"
    by (simp add: nearest_tenths_def floor_numeral_div)
  have "toFixed (Finite (6283928855065395 / 70368744177664)) 1 = Inr ''89.3''"
    by (subst toFixed_1_finite) (simp_all add: t show_nat.simps digit_char_def)
  then show ?thesis
    by (simp add: parseRate_def m bindE_def)
qed

lemma parseRate_0: "parseRate (Some ''0'') = Inr ''0.0%''"
proof -
  have m: "multiply (parseFloat ''0'') (Finite 100) = Finite 0"
    by (simp add: parseFloat_0 multiply_def to_double_def)
  have "toFixed (Finite 0) 1 = Inr ''0.0''"
    by (subst toFixed_1_finite) (simp_all add: nearest_tenths_def show_nat.simps digit_char_def)
  then show ?thesis
    by (simp add: parseRate_def m bindE_def)
qed

lemma parseRate_NaN:
  "s \<noteq> [] \<Longrightarrow> parseFloat s = NaN \<Longrightarrow> parseRate (Some s) = Inr ''NaN%''"
  by (simp add: parseRate_def multiply_def toFixed_def number_toString_def bindE_def)

lemma parseRate_Infinity: "parseRate (Some ''Infinity'') = Inr ''Infinity%''"
  by (simp add: parseRate_def parseFloat_Infinity multiply_def toFixed_def
      number_toString_def bindE_def is_negative_def)

lemma parseRate_missing: "parseRate None = Inr ''0%''" "parseRate (Some []) = Inr ''0%''"
  by (simp_all add: parseRate_def)

section \<open>The previous-month key\<close>

lemma show_nat_lt_100: "10 \<le> n \<Longrightarrow> n < 100 \<Longrightarrow> length (show_nat n) = 2"
  by (simp add: show_nat_large show_nat_small)

lemma show_nat_4_digits: "1000 \<le> n \<Longrightarrow> n < 10000 \<Longrightarrow> length (show_nat n) = 4"
  by (simp add: show_nat_large show_nat_small)

lemma show_nat_12: "show_nat 12 = ''12''"
  by (simp add: show_nat.simps digit_char_def)

lemma pad_month:
  assumes "1 \<le> m" "m \<le> 12"
  shows "padStart 2 ''0'' (int_toString m) =
           (if m < 10 then ''0'' @ show_nat (nat m) else show_nat (nat m))"
proof (cases "m < 10")
  case True
  then have "nat m < 10" using assms by simp
  then have "show_nat (nat m) = [digit_char (nat m)]" by (rule show_nat_small)
  with True assms show ?thesis by (simp add: padStart_def int_toString_def)
next
  case False
  then have "10 \<le> nat m" "nat m < 100" using assms by simp_all
  then have "length (show_nat (nat m)) = 2" by (rule show_nat_lt_100)
  with False assms show ?thesis by (simp add: padStart_def int_toString_def)
qed

lemma getPrevMonthKey_wall_clock:
  assumes "wall_clock now"
  shows "getPrevMonthKey now =
           year_month_key (previous_month (getFullYear now, getMonth now + 1))"
proof -
  have y: "1970 \<le> getFullYear now" and m: "0 \<le> getMonth now" "getMonth now \<le> 11"
    using assms by (simp_all add: wall_clock_def)
  show ?thesis
  proof (cases "getMonth now = 0")
    case True
    have "(- 1 :: int) div 12 = - 1" "(- 1 :: int) mod 12 = 11" by simp_all
    with True y show ?thesis
      using pad_month [of 12]
      by (simp add: getPrevMonthKey_def new_Date_first_def year_month_key_def
          previous_month_def int_toString_def Let_def)
  next
    case False
    then have r: "1 \<le> getMonth now" using m by simp
    then have d: "(getMonth now - 1) div 12 = 0" "(getMonth now - 1) mod 12 = getMonth now - 1"
      using m by simp_all
    show ?thesis
      using y r m False pad_month [of "getMonth now"]
      by (simp add: getPrevMonthKey_def new_Date_first_def year_month_key_def
          previous_month_def int_toString_def Let_def d)
  qed
qed

lemma key_jan_2026: "getPrevMonthKey jan_31_2026 = ''2025-12''"
  by (simp add: getPrevMonthKey_def new_Date_first_def jan_31_2026_def int_toString_def
      padStart_def show_nat.simps digit_char_def Let_def)

lemma getPrevMonthKey_same_month:
  "getFullYear n1 = getFullYear n2 \<Longrightarrow> getMonth n1 = getMonth n2 \<Longrightarrow>
     getPrevMonthKey n1 = getPrevMonthKey n2"
  by (simp add: getPrevMonthKey_def)

lemma display_row_same_month:
  "getFullYear n1 = getFullYear n2 \<Longrightarrow> getMonth n1 = getMonth n2 \<Longrightarrow>
     display_row n1 r = display_row n2 r"
  by (simp add: display_row_def getNetEarningsPrevMonth_def earnings_match_def
      getPrevMonthKey_same_month [of n1 n2])

lemma rate_text_missing: "rate_text None = ''0%''" "rate_text (Some []) = ''0%''"
  by (simp_all add: rate_text_def parseRate_def)

lemma netEarnings_eq:
  "getNetEarningsPrevMonth now r =
     number_toString
       (parseFloat (case Option.bind (earnings_match now r) costs of None \<Rightarrow> ''0'' | Some c \<Rightarrow> c))
       @ '' '' @ euro"
  by (simp add: getNetEarningsPrevMonth_def)

lemma netEarnings_default:
  "Option.bind (earnings_match now r) costs = None \<Longrightarrow>
     getNetEarningsPrevMonth now r = ''0 '' @ euro"
  by (simp add: netEarnings_eq parseFloat_0 number_toString_def)

lemma earnings_match_no_employee: "employees r = None \<Longrightarrow> earnings_match now r = None"
  by (simp add: earnings_match_def earningsArr_def)

lemma rate_text_NaN: "s \<noteq> [] \<Longrightarrow> parseFloat s = NaN \<Longrightarrow> rate_text (Some s) = ''NaN%''"
  by (simp add: rate_text_def parseRate_NaN)

lemma parseFloat_072: "parseFloat ''0.72'' = Finite (3242591731706757 / 4503599627370496)"
  using to_double_pos [of "72 / 100" "- 1" 6485183463413514]
  by (simp add: trimStart.simps [of "''0.72''"] parse_defs power_int_minus)

lemma d072_100: "to_double (3242591731706757 / 4503599627370496 * 100) = Finite 72"
  using to_double_pos [of "3242591731706757 / 4503599627370496 * 100" 6 5066549580791808]
  by (simp add: power_int_minus)

lemma multiply_072: "multiply (parseFloat ''0.72'') (Finite 100) = Finite 72"
  using d072_100 by (simp add: parseFloat_072 multiply_def)

lemma tenths_72: "nearest_tenths 72 = 720"
  by (simp add: nearest_tenths_def floor_numeral_div)

lemma show_nat_72: "show_nat 72 = ''72''"
  by (simp add: show_nat.simps digit_char_def)

lemma match_december:
  "earnings_match jan_31_2026 (employee_with_costs c)
     = Some \<lparr>potentialEarningsEntry.month = Some ''2025-12'', costs = c\<rparr>"
  by (simp add: earnings_match_def earningsArr_def employee_with_costs_def costs_employee_def
      key_jan_2026)

lemma match_jane:
  "earnings_match jan_31_2026 jane
     = Some \<lparr>potentialEarningsEntry.month = Some ''2025-12'', costs = Some ''3500''\<rparr>"
  by (simp add: earnings_match_def earningsArr_def jane_def jane_employee_def key_jan_2026)

lemma display_row_missing:
  "display_row now (employee_with (Some f) (Some l) None)
     = \<lparr>person = f @ '' '' @ l, past12Months = ''0%'', y2d = ''0%'', may = ''0%'',
        june = ''0%'', july = ''0%'', netEarningsPrevMonth = ''0 '' @ euro\<rparr>"
  by (simp add: display_row_def utilisation_of_def months_of_def extractPerson_def
      employee_with_def as_person_def template_str_def month_rate_def rate_text_missing
      netEarnings_default earnings_match_def earningsArr_def)

lemma display_row_malformed:
  "display_row now (employee_with (Some f) (Some l) (Some ''abc''))
     = \<lparr>person = f @ '' '' @ l, past12Months = ''0%'', y2d = ''NaN%'', may = ''0%'',
        june = ''0%'', july = ''0%'', netEarningsPrevMonth = ''0 '' @ euro\<rparr>"
  by (simp add: display_row_def utilisation_of_def months_of_def extractPerson_def
      employee_with_def as_person_def template_str_def month_rate_def rate_text_missing
      rate_text_NaN parseFloat_abc netEarnings_default earnings_match_def earningsArr_def)

section \<open>The two projections compared\<close>

text \<open>
  \<^verbatim>\<open>isValidRow\<close> of part_000, spelled out: every variant that is present passes its status
  check, and the person, the employee if there is one and else the external, has a first
  and a last name that are present and not empty.
\<close>

lemma isValidRow_iff:
  "isValidRow r
     = ((case employees r of
           None \<Rightarrow> True
         | Some e \<Rightarrow>
             Option.bind (statusAggregation e) statusAggregation.status \<noteq> Some ''Inaktiv'')
        \<and> (case externals r of None \<Rightarrow> True | Some x \<Rightarrow> externals.status x = Some ''active'')
        \<and> (\<exists>p. extractPerson r = Some p \<and> truthy (firstname p) \<and> truthy (lastname p)))"
  by (cases "employees r"; cases "externals r")
    (simp_all add: isValidRow_def isInactiveEmployee_def isInactiveExternal_def
      hasValidName_def extractPerson_def truthy_def)

lemma refactored_row_count:
  "\<exists>rows. tableData_refactored now rs = Inr rows
     \<and> length rows = length (filter isValidRow rs) \<and> length rows \<le> length rs"
  by (simp add: tableData_refactored_eq)

lemma isValidRow_inline_keeps: "isValidRow r \<Longrightarrow> inline_keeps r"
  by (cases "employees r"; cases "externals r")
    (simp_all add: isValidRow_def isInactiveEmployee_def isInactiveExternal_def
      hasValidName_def truthy_def inline_keeps_def)

lemma inline_keeps_isValidRow:
  assumes "inline_keeps r" and "hasValidName (extractPerson r)"
    and "employees r = None \<or> externals r = None"
  shows "isValidRow r"
  using assms
  by (cases "employees r"; cases "externals r")
    (simp_all add: isValidRow_def isInactiveEmployee_def isInactiveExternal_def
      extractPerson_def inline_keeps_def)

text \<open>
  The two projections agree on every input whose records, where table-script.tsx keeps
  them, are valid rows of part_000.
\<close>

lemma projections_agree:
  assumes "\<And>r. r \<in> set rs \<Longrightarrow> inline_keeps r \<Longrightarrow> isValidRow r"
  shows "tableData_inline now rs = tableData_refactored now rs"
proof -
  have "filter inline_keeps rs = filter isValidRow rs"
    using assms isValidRow_inline_keeps by (intro filter_cong) auto
  then show ?thesis
    by (simp add: tableData_inline_eq tableData_refactored_eq)
qed

section \<open>The claims\<close>

text \<open>
  C1. The claim: a record gets a row if and only if it passes the activity-and-name
  predicate, and the number of rows is the number of such records. part_000 does that
  (\<open>tableData_refactored_eq\<close>, \<open>isValidRow_iff\<close>, \<open>refactored_row_count\<close>). table-script.tsx
  checks the status and never the name: an active employee whose first name is the empty
  string gets the row \<^verbatim>\<open>" Doe"\<close> there, and no row in part_000.
\<close>

theorem inline_emits_row_without_firstname:
  "tableData_inline jan_31_2026 [employee_with (Some '''') (Some ''Doe'') None]
     = Inr [\<lparr>person = '' Doe'', past12Months = ''0%'', y2d = ''0%'', may = ''0%'',
             june = ''0%'', july = ''0%'', netEarningsPrevMonth = ''0 '' @ euro\<rparr>]
   \<and> isValidRow (employee_with (Some '''') (Some ''Doe'') None) = False
   \<and> tableData_refactored jan_31_2026 [employee_with (Some '''') (Some ''Doe'') None] = Inr []"
proof -
  have k: "inline_keeps (employee_with (Some '''') (Some ''Doe'') None)"
    by (simp add: inline_keeps_def employee_with_def)
  have v: "\<not> isValidRow (employee_with (Some '''') (Some ''Doe'') None)"
    by (simp add: isValidRow_def employee_with_def hasValidName_def truthy_def as_person_def)
  show ?thesis
    using k v by (simp add: tableData_inline_eq tableData_refactored_eq display_row_missing)
qed

text \<open>
  C2. The claim: the two projections compute the same rows for every input. They do not:
  for an active external without a first name table-script.tsx emits the row
  \<^verbatim>\<open>"undefined Doe"\<close> and part_000 emits nothing. They agree where every record that
  table-script.tsx keeps is a valid row of part_000 (\<open>projections_agree\<close>).
\<close>

theorem projections_differ_without_firstname:
  "tableData_inline jan_31_2026 [external_with None (Some ''Doe'')]
     = Inr [\<lparr>person = ''undefined Doe'', past12Months = ''0%'', y2d = ''0%'', may = ''0%'',
             june = ''0%'', july = ''0%'', netEarningsPrevMonth = ''0 '' @ euro\<rparr>]
   \<and> tableData_refactored jan_31_2026 [external_with None (Some ''Doe'')] = Inr []"
proof -
  have k: "inline_keeps (external_with None (Some ''Doe''))"
    by (simp add: inline_keeps_def external_with_def)
  have v: "\<not> isValidRow (external_with None (Some ''Doe''))"
    by (simp add: isValidRow_def external_with_def hasValidName_def truthy_def as_person_def)
  have d: "display_row jan_31_2026 (external_with None (Some ''Doe''))
             = \<lparr>person = ''undefined Doe'', past12Months = ''0%'', y2d = ''0%'', may = ''0%'',
                june = ''0%'', july = ''0%'', netEarningsPrevMonth = ''0 '' @ euro\<rparr>"
    by (simp add: display_row_def utilisation_of_def months_of_def extractPerson_def
        external_with_def as_person_def template_str_def month_rate_def rate_text_missing
        netEarnings_default earnings_match_def earningsArr_def)
  show ?thesis
    using k v by (simp add: tableData_inline_eq tableData_refactored_eq d)
qed

text \<open>
  C3, as amended. \<^verbatim>\<open>parseRate\<close> gives \<^verbatim>\<open>"0%"\<close> for a missing value and for the empty
  string, and \<^verbatim>\<open>"89.3%"\<close> for \<^verbatim>\<open>"0.893"\<close>. For a string that is not empty it parses the
  string with \<^verbatim>\<open>parseFloat\<close> and multiplies by 100: when the parse is \<^verbatim>\<open>NaN\<close> the result is
  \<^verbatim>\<open>"NaN%"\<close>; when the product is finite and below \<open>10 ^ 21\<close> in size the result is the
  nearest number of tenths, written with a sign, the digits of the whole part, a point,
  exactly one digit, and \<^verbatim>\<open>%\<close>.
\<close>

theorem parseRate_format:
  "parseRate None = Inr ''0%''
   \<and> parseRate (Some '''') = Inr ''0%''
   \<and> parseRate (Some ''0.893'') = Inr ''89.3%''
   \<and> (s \<noteq> [] \<longrightarrow> parseFloat s = NaN \<longrightarrow> parseRate (Some s) = Inr ''NaN%'')
   \<and> (s \<noteq> [] \<longrightarrow> multiply (parseFloat s) (Finite 100) = Finite y \<longrightarrow> \<bar>y\<bar> < 10 ^ 21 \<longrightarrow>
         parseRate (Some s)
           = Inr ((if y < 0 then ''-'' else '''') @ show_nat (nearest_tenths y div 10) @ ''.''
                    @ [digit_char (nearest_tenths y mod 10)] @ ''%''))"
proof -
  have "parseRate (Some s)
          = Inr ((if y < 0 then ''-'' else '''') @ show_nat (nearest_tenths y div 10) @ ''.''
                   @ [digit_char (nearest_tenths y mod 10)] @ ''%'')"
    if s: "s \<noteq> []" and m: "multiply (parseFloat s) (Finite 100) = Finite y"
      and y: "\<bar>y\<bar> < 10 ^ 21"
  proof -
    have "parseRate (Some s)
            = bindE (toFixed (multiply (parseFloat s) (Finite 100)) 1) (\<lambda>t. Inr (t @ ''%''))"
      using s by (simp add: parseRate_def)
    also have "\<dots> = bindE (toFixed (Finite y) 1) (\<lambda>t. Inr (t @ ''%''))"
      by (simp only: m)
    finally show ?thesis
      by (simp only: toFixed_1_finite [OF y] bindE_def) simp
  qed
  then show ?thesis
    by (simp add: parseRate_missing parseRate_0893 parseRate_NaN)
qed

theorem parseRate_format_witness:
  "''abc'' \<noteq> [] \<and> parseFloat ''abc'' = NaN \<and> parseRate (Some ''abc'') = Inr ''NaN%''
   \<and> ''0.72'' \<noteq> [] \<and> multiply (parseFloat ''0.72'') (Finite 100) = Finite 72
   \<and> \<bar>72 :: rat\<bar> < 10 ^ 21 \<and> parseRate (Some ''0.72'') = Inr ''72.0%''"
  using parseRate_format [of "''abc''" 0] parseRate_format [of "''0.72''" 72]
  by (simp add: parseFloat_abc multiply_072 tenths_72 show_nat_72 digit_char_def)

text \<open>
  C3 as stated fails: a string that does not parse as a number is not formatted to
  \<^verbatim>\<open>"0%"\<close>, and a string that parses to an infinity gets no digit after a point.
\<close>

theorem parseRate_unparseable_counterexample:
  "parseRate (Some ''abc'') = Inr ''NaN%'' \<and> parseRate (Some ''Infinity'') = Inr ''Infinity%''"
  by (simp add: parseRate_NaN parseFloat_abc parseRate_Infinity)

text \<open>
  C4, as amended. \<^verbatim>\<open>getNetEarningsPrevMonth\<close> takes the first entry of the employee's
  \<^verbatim>\<open>potentialEarningsByMonth\<close> whose month is the previous-month key. Without an employee,
  without such an entry or without \<^verbatim>\<open>costs\<close> in it the result is \<^verbatim>\<open>"0 \<euro>"\<close>. With costs
  \<open>c\<close> it is \<^verbatim>\<open>parseFloat(c)\<close> printed by \<^verbatim>\<open>toString\<close>, a space and the euro sign: \<^verbatim>\<open>"3500 \<euro>"\<close>
  for \<^verbatim>\<open>"3500"\<close>, and \<^verbatim>\<open>"NaN \<euro>"\<close> for costs that do not parse.
\<close>

theorem getNetEarningsPrevMonth_cases:
  "earnings_match now r
     = List.find (\<lambda>e. potentialEarningsEntry.month e = Some (getPrevMonthKey now))
         (earningsArr r)
   \<and> (employees r = None \<longrightarrow> getNetEarningsPrevMonth now r = ''0 '' @ euro)
   \<and> (Option.bind (earnings_match now r) costs = None \<longrightarrow>
         getNetEarningsPrevMonth now r = ''0 '' @ euro)
   \<and> (Option.bind (earnings_match now r) costs = Some c \<longrightarrow>
         getNetEarningsPrevMonth now r = number_toString (parseFloat c) @ '' '' @ euro)
   \<and> (Option.bind (earnings_match now r) costs = Some ''3500'' \<longrightarrow>
         getNetEarningsPrevMonth now r = ''3500 '' @ euro)
   \<and> (Option.bind (earnings_match now r) costs = Some c \<longrightarrow> parseFloat c = NaN \<longrightarrow>
         getNetEarningsPrevMonth now r = ''NaN '' @ euro)"
proof -
  have 1: "getNetEarningsPrevMonth now r = ''0 '' @ euro" if "employees r = None"
    using that by (simp add: netEarnings_default earnings_match_no_employee)
  have 2: "getNetEarningsPrevMonth now r = number_toString (parseFloat c) @ '' '' @ euro"
    if "Option.bind (earnings_match now r) costs = Some c" for c
    using that by (simp add: netEarnings_eq)
  have 3: "getNetEarningsPrevMonth now r = ''3500 '' @ euro"
    if "Option.bind (earnings_match now r) costs = Some ''3500''"
    using 2 [OF that] by (simp add: parseFloat_3500 toString_3500)
  have 4: "getNetEarningsPrevMonth now r = ''NaN '' @ euro"
    if "Option.bind (earnings_match now r) costs = Some c" "parseFloat c = NaN"
    using 2 [OF that(1)] that(2) by (simp add: number_toString_def)
  show ?thesis
    using 1 2 3 4 netEarnings_default [of now r]
    by (simp add: earnings_match_def)
qed

theorem getNetEarningsPrevMonth_cases_witness:
  "employees (external_with (Some ''Max'') (Some ''Muster'')) = None
   \<and> getNetEarningsPrevMonth jan_31_2026 (external_with (Some ''Max'') (Some ''Muster''))
       = ''0 '' @ euro
   \<and> Option.bind (earnings_match jan_31_2026 (employee_with_costs None)) costs = None
   \<and> getNetEarningsPrevMonth jan_31_2026 (employee_with_costs None) = ''0 '' @ euro
   \<and> Option.bind (earnings_match jan_31_2026 jane) costs = Some ''3500''
   \<and> getNetEarningsPrevMonth jan_31_2026 jane = ''3500 '' @ euro
   \<and> Option.bind (earnings_match jan_31_2026 (employee_with_costs (Some ''abc''))) costs
       = Some ''abc''
   \<and> parseFloat ''abc'' = NaN
   \<and> getNetEarningsPrevMonth jan_31_2026 (employee_with_costs (Some ''abc'')) = ''NaN '' @ euro"
proof -
  have e1: "employees (external_with (Some ''Max'') (Some ''Muster'')) = None"
    by (simp add: external_with_def)
  have e2: "Option.bind (earnings_match jan_31_2026 (employee_with_costs None)) costs = None"
    by (simp add: match_december)
  have e3: "Option.bind (earnings_match jan_31_2026 jane) costs = Some ''3500''"
    by (simp add: match_jane)
  have e4: "Option.bind (earnings_match jan_31_2026 (employee_with_costs (Some ''abc''))) costs
              = Some ''abc''"
    by (simp add: match_december)
  have 1: "getNetEarningsPrevMonth jan_31_2026 (external_with (Some ''Max'') (Some ''Muster''))
             = ''0 '' @ euro"
    using getNetEarningsPrevMonth_cases
            [of jan_31_2026 "external_with (Some ''Max'') (Some ''Muster'')" "''0''"] e1
    by blast
  have 2: "getNetEarningsPrevMonth jan_31_2026 (employee_with_costs None) = ''0 '' @ euro"
    using getNetEarningsPrevMonth_cases [of jan_31_2026 "employee_with_costs None" "''0''"] e2
    by blast
  have 3: "getNetEarningsPrevMonth jan_31_2026 jane = ''3500 '' @ euro"
    using getNetEarningsPrevMonth_cases [of jan_31_2026 jane "''3500''"] e3
    by blast
  have 4: "getNetEarningsPrevMonth jan_31_2026 (employee_with_costs (Some ''abc''))
             = ''NaN '' @ euro"
    using getNetEarningsPrevMonth_cases
            [of jan_31_2026 "employee_with_costs (Some ''abc'')" "''abc''"] e4 parseFloat_abc
    by blast
  show ?thesis
    using e1 e2 e3 e4 1 2 3 4 parseFloat_abc by blast
qed

text \<open>
  C4 as stated fails: costs that do not parse as a number, the empty string among them,
  do not default to 0.
\<close>

theorem netEarnings_unparseable_counterexample:
  "getNetEarningsPrevMonth jan_31_2026 (employee_with_costs (Some ''abc'')) = ''NaN '' @ euro
   \<and> getNetEarningsPrevMonth jan_31_2026 (employee_with_costs (Some '''')) = ''NaN '' @ euro"
  by (simp add: netEarnings_eq match_december parseFloat_abc parseFloat_empty
      number_toString_def)

text \<open>
  C5. For every date of a wall clock the previous-month key is the year, a hyphen and
  the two-digit month of the calendar month before the date's month, and for a date in
  January it is December of the year before. Up to the year 9999 the key has the seven
  characters of \<^verbatim>\<open>YYYY-MM\<close>.
\<close>

theorem getPrevMonthKey_previous_month:
  assumes "wall_clock now"
  shows "getPrevMonthKey now
           = year_month_key (previous_month (getFullYear now, getMonth now + 1))
         \<and> (getMonth now = 0 \<longrightarrow>
               getPrevMonthKey now = show_nat (nat (getFullYear now - 1)) @ ''-12'')
         \<and> (getFullYear now \<le> 9999 \<longrightarrow> length (getPrevMonthKey now) = 7)"
proof -
  have y: "1970 \<le> getFullYear now" and m: "0 \<le> getMonth now" "getMonth now \<le> 11"
    using assms by (simp_all add: wall_clock_def)
  have key: "getPrevMonthKey now
               = year_month_key (previous_month (getFullYear now, getMonth now + 1))"
    using assms by (rule getPrevMonthKey_wall_clock)
  have january: "getPrevMonthKey now = show_nat (nat (getFullYear now - 1)) @ ''-12''"
    if "getMonth now = 0"
    using that by (simp add: key previous_month_def year_month_key_def show_nat_12)
  have len: "length (getPrevMonthKey now) = 7" if "getFullYear now \<le> 9999"
  proof -
    define ym where "ym = previous_month (getFullYear now, getMonth now + 1)"
    have fy: "1969 \<le> fst ym" "fst ym \<le> 9999" and sm: "1 \<le> snd ym" "snd ym \<le> 12"
      using y m that by (simp_all add: ym_def previous_month_def)
    have "length (show_nat (nat (fst ym))) = 4"
      using fy by (intro show_nat_4_digits) simp_all
    moreover have "length (if snd ym < 10 then ''0'' @ show_nat (nat (snd ym))
                           else show_nat (nat (snd ym))) = 2"
    proof (cases "snd ym < 10")
      case True
      then have "nat (snd ym) < 10" using sm by simp
      then show ?thesis using True by (simp add: show_nat_small)
    next
      case False
      then have "10 \<le> nat (snd ym)" "nat (snd ym) < 100" using sm by simp_all
      then show ?thesis using False by (simp add: show_nat_lt_100)
    qed
    ultimately show ?thesis
      by (simp add: key year_month_key_def flip: ym_def)
  qed
  show ?thesis using key january len by blast
qed

theorem getPrevMonthKey_previous_month_witness:
  "wall_clock jan_31_2026 \<and> getMonth jan_31_2026 = 0 \<and> getFullYear jan_31_2026 \<le> 9999
   \<and> getPrevMonthKey jan_31_2026 = ''2025-12''
   \<and> length (getPrevMonthKey jan_31_2026) = 7"
  using getPrevMonthKey_previous_month [of jan_31_2026]
  by (simp add: wall_clock_def jan_31_2026_def year_month_key_def previous_month_def
      show_nat.simps digit_char_def)

text \<open>
  C6. For every input record sequence the emitted rows appear in the order of their
  source records: the output of either projection is the rows of the records it keeps, in
  input order, and so a subsequence of the rows of all the input records. Nothing is
  sorted.
\<close>

theorem rows_in_input_order:
  "tableData_inline now rs = Inr (map (display_row now) (filter inline_keeps rs))
   \<and> subseq (map (display_row now) (filter inline_keeps rs)) (map (display_row now) rs)
   \<and> tableData_refactored now rs = Inr (map (display_row now) (filter isValidRow rs))
   \<and> subseq (map (display_row now) (filter isValidRow rs)) (map (display_row now) rs)"
  by (simp add: tableData_inline_eq tableData_refactored_eq subseq_map)

text \<open>
  C7, as amended. Neither projection throws: for every input, with any fields missing
  or malformed, each returns a row sequence. A missing rate, a month without an entry or
  without a rate, and missing earnings give the defaults \<^verbatim>\<open>"0%"\<close> and \<^verbatim>\<open>"0 \<euro>"\<close>. Any of
  the five rates that is present, not empty and does not parse as a number gives
  \<^verbatim>\<open>"NaN%"\<close> in its column, and such costs give \<^verbatim>\<open>"NaN \<euro>"\<close>.
\<close>

theorem projection_never_throws:
  "tableData_inline now rs = Inr (map (display_row now) (filter inline_keeps rs))
   \<and> tableData_refactored now rs = Inr (map (display_row now) (filter isValidRow rs))
   \<and> (Option.bind (utilisation_of r) utilisationRateLastTwelveMonths = None \<longrightarrow>
         past12Months (display_row now r) = ''0%'')
   \<and> (Option.bind (utilisation_of r) utilisationRateYearToDate = None \<longrightarrow>
         y2d (display_row now r) = ''0%'')
   \<and> (month_rate (months_of r) ''May'' = None \<longrightarrow> may (display_row now r) = ''0%'')
   \<and> (month_rate (months_of r) ''June'' = None \<longrightarrow> june (display_row now r) = ''0%'')
   \<and> (month_rate (months_of r) ''July'' = None \<longrightarrow> july (display_row now r) = ''0%'')
   \<and> (Option.bind (earnings_match now r) costs = None \<longrightarrow>
         netEarningsPrevMonth (display_row now r) = ''0 '' @ euro)
   \<and> (Option.bind (utilisation_of r) utilisationRateLastTwelveMonths = Some s \<longrightarrow> s \<noteq> [] \<longrightarrow>
         parseFloat s = NaN \<longrightarrow> past12Months (display_row now r) = ''NaN%'')
   \<and> (Option.bind (utilisation_of r) utilisationRateYearToDate = Some s \<longrightarrow> s \<noteq> [] \<longrightarrow>
         parseFloat s = NaN \<longrightarrow> y2d (display_row now r) = ''NaN%'')
   \<and> (month_rate (months_of r) ''May'' = Some s \<longrightarrow> s \<noteq> [] \<longrightarrow>
         parseFloat s = NaN \<longrightarrow> may (display_row now r) = ''NaN%'')
   \<and> (month_rate (months_of r) ''June'' = Some s \<longrightarrow> s \<noteq> [] \<longrightarrow>
         parseFloat s = NaN \<longrightarrow> june (display_row now r) = ''NaN%'')
   \<and> (month_rate (months_of r) ''July'' = Some s \<longrightarrow> s \<noteq> [] \<longrightarrow>
         parseFloat s = NaN \<longrightarrow> july (display_row now r) = ''NaN%'')
   \<and> (Option.bind (earnings_match now r) costs = Some s \<longrightarrow> parseFloat s = NaN \<longrightarrow>
         netEarningsPrevMonth (display_row now r) = ''NaN '' @ euro)"
proof -
  have "netEarningsPrevMonth (display_row now r) = ''NaN '' @ euro"
    if "Option.bind (earnings_match now r) costs = Some s" "parseFloat s = NaN"
    using that by (simp add: display_row_def netEarnings_eq number_toString_def)
  then show ?thesis
    by (simp add: tableData_inline_eq tableData_refactored_eq display_row_def
        rate_text_missing rate_text_NaN netEarnings_default)
qed

theorem projection_never_throws_witness:
  "Option.bind (utilisation_of (employee_with (Some ''Jane'') (Some ''Doe'') None))
       utilisationRateLastTwelveMonths = None
   \<and> Option.bind (utilisation_of (employee_with (Some ''Jane'') (Some ''Doe'') None))
       utilisationRateYearToDate = None
   \<and> month_rate (months_of (employee_with (Some ''Jane'') (Some ''Doe'') None)) ''May'' = None
   \<and> month_rate (months_of (employee_with (Some ''Jane'') (Some ''Doe'') None)) ''June'' = None
   \<and> month_rate (months_of (employee_with (Some ''Jane'') (Some ''Doe'') None)) ''July'' = None
   \<and> Option.bind
         (earnings_match jan_31_2026 (employee_with (Some ''Jane'') (Some ''Doe'') None)) costs
       = None
   \<and> tableData_inline jan_31_2026 [employee_with (Some ''Jane'') (Some ''Doe'') None]
       = Inr [display_row jan_31_2026 (employee_with (Some ''Jane'') (Some ''Doe'') None)]
   \<and> tableData_refactored jan_31_2026 [employee_with (Some ''Jane'') (Some ''Doe'') None]
       = Inr [display_row jan_31_2026 (employee_with (Some ''Jane'') (Some ''Doe'') None)]
   \<and> display_row jan_31_2026 (employee_with (Some ''Jane'') (Some ''Doe'') None)
       = \<lparr>person = ''Jane Doe'', past12Months = ''0%'', y2d = ''0%'', may = ''0%'',
          june = ''0%'', july = ''0%'', netEarningsPrevMonth = ''0 '' @ euro\<rparr>
   \<and> Option.bind (utilisation_of (employee_with (Some ''Jane'') (Some ''Doe'') (Some ''abc'')))
       utilisationRateYearToDate = Some ''abc''
   \<and> parseFloat ''abc'' = NaN
   \<and> y2d (display_row jan_31_2026 (employee_with (Some ''Jane'') (Some ''Doe'') (Some ''abc'')))
       = ''NaN%''
   \<and> Option.bind (earnings_match jan_31_2026 (employee_with_costs (Some ''abc''))) costs
       = Some ''abc''
   \<and> netEarningsPrevMonth (display_row jan_31_2026 (employee_with_costs (Some ''abc'')))
       = ''NaN '' @ euro
   \<and> Option.bind (utilisation_of malformed_external) utilisationRateLastTwelveMonths
       = Some ''abc''
   \<and> Option.bind (utilisation_of malformed_external) utilisationRateYearToDate = Some ''abc''
   \<and> month_rate (months_of malformed_external) ''May'' = Some ''abc''
   \<and> month_rate (months_of malformed_external) ''June'' = Some ''abc''
   \<and> month_rate (months_of malformed_external) ''July'' = Some ''abc''
   \<and> tableData_inline jan_31_2026 [malformed_external]
       = Inr [display_row jan_31_2026 malformed_external]
   \<and> tableData_refactored jan_31_2026 [malformed_external]
       = Inr [display_row jan_31_2026 malformed_external]
   \<and> display_row jan_31_2026 malformed_external
       = \<lparr>person = ''Max Muster'', past12Months = ''NaN%'', y2d = ''NaN%'', may = ''NaN%'',
          june = ''NaN%'', july = ''NaN%'', netEarningsPrevMonth = ''0 '' @ euro\<rparr>"
proof -
  define r where "r = employee_with (Some ''Jane'') (Some ''Doe'') None"
  define r' where "r' = employee_with (Some ''Jane'') (Some ''Doe'') (Some ''abc'')"
  define r'' where "r'' = employee_with_costs (Some ''abc'')"
  note T = projection_never_throws [of jan_31_2026 "[r]" r "''abc''"]
  note T' = projection_never_throws [of jan_31_2026 "[r']" r' "''abc''"]
  note T'' = projection_never_throws [of jan_31_2026 "[r'']" r'' "''abc''"]
  have u: "utilisation_of r
             = Some \<lparr>utilisationRateLastTwelveMonths = None, utilisationRateYearToDate = None,
                     lastThreeMonthsIndividually = None\<rparr>"
    by (simp add: r_def utilisation_of_def extractPerson_def employee_with_def as_person_def)
  have h1: "Option.bind (utilisation_of r) utilisationRateLastTwelveMonths = None"
    and h2: "Option.bind (utilisation_of r) utilisationRateYearToDate = None"
    by (simp_all add: u)
  have h3: "month_rate (months_of r) name = None" for name
    by (simp add: months_of_def u month_rate_def)
  have h4: "Option.bind (earnings_match jan_31_2026 r) costs = None"
    by (simp add: r_def earnings_match_def earningsArr_def employee_with_def)
  have k: "inline_keeps r" "isValidRow r"
    by (simp_all add: r_def inline_keeps_def isValidRow_def employee_with_def hasValidName_def
        truthy_def as_person_def isInactiveEmployee_def isInactiveExternal_def)
  have rows: "tableData_inline jan_31_2026 [r] = Inr [display_row jan_31_2026 r]"
    "tableData_refactored jan_31_2026 [r] = Inr [display_row jan_31_2026 r]"
    using T k by simp_all
  have fields: "past12Months (display_row jan_31_2026 r) = ''0%''"
    "y2d (display_row jan_31_2026 r) = ''0%''" "may (display_row jan_31_2026 r) = ''0%''"
    "june (display_row jan_31_2026 r) = ''0%''" "july (display_row jan_31_2026 r) = ''0%''"
    "netEarningsPrevMonth (display_row jan_31_2026 r) = ''0 '' @ euro"
    using T h1 h2 h3 [of "''May''"] h3 [of "''June''"] h3 [of "''July''"] h4
    by simp_all
  have name: "person (display_row jan_31_2026 r) = ''Jane Doe''"
    by (simp add: r_def display_row_def extractPerson_def employee_with_def as_person_def
        template_str_def)
  have row: "display_row jan_31_2026 r
               = \<lparr>person = ''Jane Doe'', past12Months = ''0%'', y2d = ''0%'', may = ''0%'',
                  june = ''0%'', july = ''0%'', netEarningsPrevMonth = ''0 '' @ euro\<rparr>"
    using fields name by (cases "display_row jan_31_2026 r") simp
  have g1: "Option.bind (utilisation_of r') utilisationRateYearToDate = Some ''abc''"
    by (simp add: r'_def utilisation_of_def extractPerson_def employee_with_def as_person_def)
  have g2: "y2d (display_row jan_31_2026 r') = ''NaN%''"
    using T' g1 parseFloat_abc by simp
  have g3: "Option.bind (earnings_match jan_31_2026 r'') costs = Some ''abc''"
    by (simp add: r''_def match_december)
  have g4: "netEarningsPrevMonth (display_row jan_31_2026 r'') = ''NaN '' @ euro"
    using T'' g3 parseFloat_abc by simp
  define x where "x = malformed_external"
  note X = projection_never_throws [of jan_31_2026 "[x]" x "''abc''"]
  have xu: "utilisation_of x
              = Some \<lparr>utilisationRateLastTwelveMonths = Some ''abc'',
                      utilisationRateYearToDate = Some ''abc'',
                      lastThreeMonthsIndividually = Some
                        [\<lparr>lastThreeMonthsEntry.month = Some ''May'',
                            utilisationRate = Some ''abc''\<rparr>,
                         \<lparr>lastThreeMonthsEntry.month = Some ''June'',
                            utilisationRate = Some ''abc''\<rparr>,
                         \<lparr>lastThreeMonthsEntry.month = Some ''July'',
                            utilisationRate = Some ''abc''\<rparr>]\<rparr>"
    by (simp add: x_def malformed_external_def utilisation_of_def extractPerson_def
        as_person_def)
  have x1: "Option.bind (utilisation_of x) utilisationRateLastTwelveMonths = Some ''abc''"
    and x2: "Option.bind (utilisation_of x) utilisationRateYearToDate = Some ''abc''"
    by (simp_all add: xu)
  have x3: "month_rate (months_of x) ''May'' = Some ''abc''"
    and x4: "month_rate (months_of x) ''June'' = Some ''abc''"
    and x5: "month_rate (months_of x) ''July'' = Some ''abc''"
    by (simp_all add: months_of_def xu month_rate_def)
  have x6: "Option.bind (earnings_match jan_31_2026 x) costs = None"
    by (simp add: x_def malformed_external_def earnings_match_def earningsArr_def)
  have xk: "inline_keeps x" "isValidRow x"
    by (simp_all add: x_def malformed_external_def inline_keeps_def isValidRow_def
        hasValidName_def truthy_def as_person_def isInactiveEmployee_def
        isInactiveExternal_def)
  have xrows: "tableData_inline jan_31_2026 [x] = Inr [display_row jan_31_2026 x]"
    "tableData_refactored jan_31_2026 [x] = Inr [display_row jan_31_2026 x]"
    using X xk by simp_all
  have nonempty: "''abc'' \<noteq> []"
    by simp
  have xfields: "past12Months (display_row jan_31_2026 x) = ''NaN%''"
    "y2d (display_row jan_31_2026 x) = ''NaN%''" "may (display_row jan_31_2026 x) = ''NaN%''"
    "june (display_row jan_31_2026 x) = ''NaN%''" "july (display_row jan_31_2026 x) = ''NaN%''"
    "netEarningsPrevMonth (display_row jan_31_2026 x) = ''0 '' @ euro"
    using X x1 x2 x3 x4 x5 x6 parseFloat_abc nonempty by blast+
  have xname: "person (display_row jan_31_2026 x) = ''Max Muster''"
    by (simp add: x_def malformed_external_def display_row_def extractPerson_def
        as_person_def template_str_def)
  have xrow: "display_row jan_31_2026 x
                = \<lparr>person = ''Max Muster'', past12Months = ''NaN%'', y2d = ''NaN%'',
                   may = ''NaN%'', june = ''NaN%'', july = ''NaN%'',
                   netEarningsPrevMonth = ''0 '' @ euro\<rparr>"
    using xfields xname by (cases "display_row jan_31_2026 x") simp
  show ?thesis
    using h1 h2 h3 h4 rows row g1 g2 g3 g4 parseFloat_abc x1 x2 x3 x4 x5 xrows xrow
    unfolding r_def r'_def r''_def x_def by blast
qed

text \<open>
  C7 as stated fails: a malformed rate does not degrade to the default \<^verbatim>\<open>"0%"\<close>.
\<close>

theorem malformed_rate_counterexample:
  "tableData_inline jan_31_2026 [employee_with (Some ''Jane'') (Some ''Doe'') (Some ''abc'')]
     = Inr [\<lparr>person = ''Jane Doe'', past12Months = ''0%'', y2d = ''NaN%'', may = ''0%'',
             june = ''0%'', july = ''0%'', netEarningsPrevMonth = ''0 '' @ euro\<rparr>]
   \<and> tableData_refactored jan_31_2026
        [employee_with (Some ''Jane'') (Some ''Doe'') (Some ''abc'')]
     = Inr [\<lparr>person = ''Jane Doe'', past12Months = ''0%'', y2d = ''NaN%'', may = ''0%'',
             june = ''0%'', july = ''0%'', netEarningsPrevMonth = ''0 '' @ euro\<rparr>]"
proof -
  have k: "inline_keeps (employee_with (Some ''Jane'') (Some ''Doe'') (Some ''abc''))"
    by (simp add: inline_keeps_def employee_with_def)
  have v: "isValidRow (employee_with (Some ''Jane'') (Some ''Doe'') (Some ''abc''))"
    by (simp add: isValidRow_def employee_with_def hasValidName_def truthy_def as_person_def
        isInactiveEmployee_def isInactiveExternal_def)
  show ?thesis
    using k v by (simp add: tableData_inline_eq tableData_refactored_eq display_row_malformed)
qed

text \<open>
  C8. The projector is deterministic: on the same input, two runs at the same current
  date give the same rows. The clock is the only thing a run reads besides its input, and
  of the clock only the year and the month matter: two runs in the same calendar month
  agree, whatever the day and the time.
\<close>

theorem projection_deterministic:
  assumes "getFullYear n1 = getFullYear n2" and "getMonth n1 = getMonth n2"
  shows "tableData_inline n1 rs = tableData_inline n2 rs
         \<and> tableData_refactored n1 rs = tableData_refactored n2 rs"
proof -
  have "display_row n1 = display_row n2"
    using assms by (intro ext display_row_same_month)
  then show ?thesis
    by (simp add: tableData_inline_eq tableData_refactored_eq)
qed

theorem projection_deterministic_witness:
  "getFullYear jan_31_2026 = getFullYear jan_1_2026
   \<and> getMonth jan_31_2026 = getMonth jan_1_2026
   \<and> jan_31_2026 \<noteq> jan_1_2026
   \<and> tableData_inline jan_31_2026 [jane] = tableData_inline jan_1_2026 [jane]
   \<and> tableData_refactored jan_31_2026 [jane] = tableData_refactored jan_1_2026 [jane]"
  using projection_deterministic [of jan_31_2026 jan_1_2026 "[jane]"]
  by (simp add: jan_31_2026_def jan_1_2026_def)

text \<open>
  C9. \<^verbatim>\<open>parseRate\<close> tells an explicit zero from a missing rate only in part: the string
  \<^verbatim>\<open>"0"\<close> gives \<^verbatim>\<open>"0.0%"\<close>, while an absent value and the empty string both give the
  default \<^verbatim>\<open>"0%"\<close>.
\<close>

theorem parseRate_zero_and_missing:
  "parseRate (Some ''0'') = Inr ''0.0%''
   \<and> parseRate None = Inr ''0%''
   \<and> parseRate (Some '''') = Inr ''0%''"
  by (simp add: parseRate_0 parseRate_missing)

text \<open>
  C10. An employee record is left out for inactivity only when
  \<^verbatim>\<open>statusAggregation.status\<close> is exactly the string \<^verbatim>\<open>Inaktiv\<close>. With \<^verbatim>\<open>statusAggregation\<close>
  or its \<^verbatim>\<open>status\<close> absent, or with any other status, the employee counts as active: the
  callback of table-script.tsx returns the row, and \<^verbatim>\<open>isValidRow\<close> of part_000 holds if
  its other two conditions do.
\<close>

theorem employee_inactive_iff_Inaktiv:
  assumes "employees r = Some e"
  shows "isInactiveEmployee r
           = (Option.bind (statusAggregation e) statusAggregation.status = Some ''Inaktiv'')
         \<and> (statusAggregation e = None \<longrightarrow> \<not> isInactiveEmployee r)
         \<and> (\<forall>sa. statusAggregation e = Some sa \<longrightarrow> statusAggregation.status sa = None
                \<longrightarrow> \<not> isInactiveEmployee r)
         \<and> (\<forall>sa s. statusAggregation e = Some sa \<longrightarrow> statusAggregation.status sa = Some s
                \<longrightarrow> s \<noteq> ''Inaktiv'' \<longrightarrow> \<not> isInactiveEmployee r)
         \<and> inline_row now r
               = (if isInactiveEmployee r then Inr None else Inr (Some (display_row now r)))
         \<and> isValidRow r
               = (\<not> isInactiveEmployee r \<and> \<not> isInactiveExternal r
                  \<and> hasValidName (Some (as_person e)))"
proof -
  have 1: "isInactiveEmployee r
             = (Option.bind (statusAggregation e) statusAggregation.status = Some ''Inaktiv'')"
    using assms by (simp add: isInactiveEmployee_def)
  have 2: "inline_keeps r = (\<not> isInactiveEmployee r)"
    using assms by (simp add: inline_keeps_def isInactiveEmployee_def)
  have 3: "isValidRow r
             = (\<not> isInactiveEmployee r \<and> \<not> isInactiveExternal r
                \<and> hasValidName (Some (as_person e)))"
    using assms by (simp add: isValidRow_def)
  show ?thesis
    using 1 3 by (auto simp: inline_row_eq 2)
qed

theorem employee_inactive_iff_Inaktiv_witness:
  "employees jane = Some jane_employee
   \<and> \<not> isInactiveEmployee jane
   \<and> isValidRow jane
   \<and> inline_row jan_31_2026 jane = Inr (Some (display_row jan_31_2026 jane))
   \<and> employees (employee_with_costs None) = Some (costs_employee None)
   \<and> statusAggregation (costs_employee None) = None
   \<and> \<not> isInactiveEmployee (employee_with_costs None)
   \<and> isValidRow (employee_with_costs None)
   \<and> inline_row jan_31_2026 (employee_with_costs None)
       = Inr (Some (display_row jan_31_2026 (employee_with_costs None)))"
proof -
  have 1: "employees jane = Some jane_employee"
    by (simp add: jane_def)
  have 2: "employees (employee_with_costs None) = Some (costs_employee None)"
    by (simp add: employee_with_costs_def)
  have 3: "statusAggregation (costs_employee None) = None"
    by (simp add: costs_employee_def)
  have a: "\<not> isInactiveEmployee jane \<and> isValidRow jane
           \<and> inline_row jan_31_2026 jane = Inr (Some (display_row jan_31_2026 jane))"
    using employee_inactive_iff_Inaktiv [OF 1, of jan_31_2026]
    by (simp add: jane_def jane_employee_def isInactiveExternal_def hasValidName_def
        truthy_def as_person_def)
  have b: "\<not> isInactiveEmployee (employee_with_costs None)
           \<and> isValidRow (employee_with_costs None)
           \<and> inline_row jan_31_2026 (employee_with_costs None)
               = Inr (Some (display_row jan_31_2026 (employee_with_costs None)))"
    using employee_inactive_iff_Inaktiv [OF 2, of jan_31_2026] 3
    by (simp add: employee_with_costs_def costs_employee_def isInactiveExternal_def
        hasValidName_def truthy_def as_person_def)
  show ?thesis
    using 1 2 3 a b by blast
qed

end
